theory Spec2Isabelle
  imports Main "HOL-Library.AList"
begin

section \<open>Bot.py: a single-operator Telegram scheduling bot\<close>

text \<open>
  The module keeps two global dictionaries, \<^verbatim>\<open>channels\<close> (name to channel id) and
  \<^verbatim>\<open>scheduled_messages\<close> (message id to \<^verbatim>\<open>ScheduledMessage\<close>), mirrors them in two JSON
  files, and arms one job of the job queue per message created by \<^verbatim>\<open>/schedule\<close>.
  Everything the handlers touch is gathered in one state record that each handler takes
  and returns.

  Conventions of the model.
  \<^item> A Python \<^verbatim>\<open>dict\<close> is an association list in insertion order with the dictionary
    operations of the library theory of association lists: \<^verbatim>\<open>d[k] = v\<close> is \<^const>\<open>AList.update\<close>
    (an existing key keeps its position), \<^verbatim>\<open>del d[k]\<close> is \<^const>\<open>AList.delete\<close>,
    \<^verbatim>\<open>k in d\<close> is membership in the list of keys.
  \<^item> A \<^verbatim>\<open>datetime\<close> is an integer number of microseconds on the clock's time line, a
    \<^verbatim>\<open>timedelta\<close> a difference of two of them. The readings of \<^verbatim>\<open>datetime.now()\<close> are
    arguments of the handlers that take them.
  \<^item> A string is a list of characters, one \<^typ>\<open>char\<close> per Python character.
  \<^item> The wording of the bot's messages is not modelled: each message the bot emits is a
    constructor carrying the values interpolated into it.
\<close>

subsection \<open>Strings and numbers\<close>

text \<open>
  \<^verbatim>\<open>str.lower()\<close> on the letters A to Z; every other character is left as it is. Python
  also lower-cases letters outside ASCII; names with such letters are outside this model.
\<close>

definition lower_char :: "char \<Rightarrow> char" where
  "lower_char c =
     (case map_of (zip ''ABCDEFGHIJKLMNOPQRSTUVWXYZ'' ''abcdefghijklmnopqrstuvwxyz'') c of
        None \<Rightarrow> c
      | Some l \<Rightarrow> l)"

definition lower :: "string \<Rightarrow> string" where
  "lower s = map lower_char s"

text \<open>\<^verbatim>\<open>s.startswith(p)\<close>; the slice \<^verbatim>\<open>s[n:]\<close> is \<^const>\<open>drop\<close>.\<close>

definition startswith :: "string \<Rightarrow> string \<Rightarrow> bool" where
  "startswith s p = (take (length p) s = p)"

text \<open>\<^verbatim>\<open>' '.join(xs)\<close>.\<close>

fun join_space :: "string list \<Rightarrow> string" where
  "join_space [] = []"
| "join_space [x] = x"
| "join_space (x # y # ys) = x @ CHR '' '' # join_space (y # ys)"

text \<open>\<^verbatim>\<open>str(n)\<close> for an integer: decimal digits, with a minus sign when negative.\<close>

definition digit_char :: "nat \<Rightarrow> char" where
  "digit_char d = ''0123456789'' ! d"

fun str_nat :: "nat \<Rightarrow> string" where
  "str_nat n = (if n < 10 then [digit_char n] else str_nat (n div 10) @ [digit_char (n mod 10)])"

declare str_nat.simps [simp del]

definition str_int :: "int \<Rightarrow> string" where
  "str_int i = (if i < 0 then CHR ''-'' # str_nat (nat (- i)) else str_nat (nat i))"

text \<open>
  \<^verbatim>\<open>int(s)\<close> for an argument of a command (which holds no white space): an optional sign,
  then decimal digits, where single underscores may separate digits. \<^const>\<open>None\<close> is the
  \<^verbatim>\<open>ValueError\<close>.
\<close>

definition digit_val :: "char \<Rightarrow> nat option" where
  "digit_val c = map_of (zip ''0123456789'' [0, 1, 2, 3, 4, 5, 6, 7, 8, 9]) c"

fun py_digits :: "nat \<Rightarrow> string \<Rightarrow> nat option" where
  "py_digits acc [] = Some acc"
| "py_digits acc [c] =
     (case digit_val c of None \<Rightarrow> None | Some v \<Rightarrow> Some (acc * 10 + v))"
| "py_digits acc (c # d # ds) =
     (if c = CHR ''_''
      then (case digit_val d of None \<Rightarrow> None | Some v \<Rightarrow> py_digits (acc * 10 + v) ds)
      else (case digit_val c of None \<Rightarrow> None | Some v \<Rightarrow> py_digits (acc * 10 + v) (d # ds)))"

definition py_nat :: "string \<Rightarrow> nat option" where
  "py_nat s =
     (case s of
        [] \<Rightarrow> None
      | c # cs \<Rightarrow> (case digit_val c of None \<Rightarrow> None | Some v \<Rightarrow> py_digits v cs))"

definition py_int :: "string \<Rightarrow> int option" where
  "py_int s =
     (case s of
        [] \<Rightarrow> None
      | c # cs \<Rightarrow>
          if c = CHR ''-'' then map_option (\<lambda>n. - int n) (py_nat cs)
          else if c = CHR ''+'' then map_option int (py_nat cs)
          else map_option int (py_nat s))"

subsection \<open>Time\<close>

type_synonym datetime = int

text \<open>
  The first and the last instant a \<^verbatim>\<open>datetime\<close> can hold: 0001-01-01 00:00:00 and
  9999-12-31 23:59:59.999999, counted from 1970-01-01 00:00:00.
\<close>

definition datetime_min :: datetime where
  "datetime_min = - 62135596800000000"

definition datetime_max :: datetime where
  "datetime_max = 253402300799999999"

text \<open>\<^verbatim>\<open>t + td\<close> for a \<^verbatim>\<open>datetime\<close> and a \<^verbatim>\<open>timedelta\<close>; \<^const>\<open>None\<close> is the \<^verbatim>\<open>OverflowError\<close>
  of a result outside the range of \<^verbatim>\<open>datetime\<close>.\<close>

definition datetime_add :: "datetime \<Rightarrow> int \<Rightarrow> datetime option" where
  "datetime_add t td =
     (if datetime_min \<le> t + td \<and> t + td \<le> datetime_max then Some (t + td) else None)"

text \<open>\<^verbatim>\<open>timedelta(minutes=m)\<close>, in microseconds.\<close>

definition timedelta_minutes :: "int \<Rightarrow> int" where
  "timedelta_minutes m = m * 60 * 1000000"

text \<open>
  \<^verbatim>\<open>int(t.timestamp())\<close>: whole seconds, truncated towards zero. The clock is read as
  UTC and the division is exact; Python goes through the local time zone and a float,
  which for clock readings centuries ahead can round up to the next second.
\<close>

definition timestamp_int :: "datetime \<Rightarrow> int" where
  "timestamp_int t = (if 0 \<le> t then t div 1000000 else - ((- t) div 1000000))"

text \<open>
  \<^verbatim>\<open>max(0, int(td.total_seconds() / 60))\<close> for a \<^verbatim>\<open>timedelta\<close> \<open>td\<close>, with exact
  division where Python divides floats; the two can differ by one minute for very long
  spans.
\<close>

definition minutes_remaining :: "int \<Rightarrow> int" where
  "minutes_remaining td = max 0 (if 0 \<le> td then td div 60000000 else - ((- td) div 60000000))"

subsection \<open>Data\<close>

text \<open>
  \<^verbatim>\<open>class ScheduledMessage\<close>. The field \<^verbatim>\<open>text\<close> is \<open>msg_text\<close> here; \<open>job\<close> holds the
  handle of the job armed for the message, or \<^const>\<open>None\<close>.
\<close>

record scheduled_message =
  message_id :: string
  chat_id :: int
  msg_text :: string
  scheduled_time :: datetime
  channel :: string
  job :: "nat option"
  active :: bool

text \<open>What \<^verbatim>\<open>save_data\<close> writes for one message, under the message id as key.\<close>

record saved_message =
  saved_chat_id :: int
  saved_text :: string
  saved_scheduled_time :: datetime
  saved_channel :: string
  saved_active :: bool

text \<open>
  A JSON file of the bot: absent, present but not loadable (\<^verbatim>\<open>json.load\<close> or the
  conversion of an entry raises), or holding a JSON object, given as its members in the
  order of the file. The members have the shape \<^verbatim>\<open>save_data\<close> writes: strings in the
  channels file, the five saved fields of a message in the messages file.
\<close>

datatype 'a json_file = Missing | Corrupt | Content "(string \<times> 'a) list"

text \<open>A job of the job queue, as \<^verbatim>\<open>run_once(callback, when, data=..., name=...)\<close> makes it.\<close>

record queue_job =
  job_id :: nat
  job_when :: int
  job_data :: string
  job_name :: string

text \<open>The \<^verbatim>\<open>chat_id\<close> argument of \<^verbatim>\<open>bot.send_message\<close>: a channel id or a chat id.\<close>

datatype chat_ref = ChannelRef string | ChatRef int

text \<open>The texts passed to \<^verbatim>\<open>bot.send_message\<close> by the job callback.\<close>

datatype outgoing =
    Plain string
  | NotifySent string string
  | NotifyError string

text \<open>One block of the listing of \<^verbatim>\<open>/listschedule\<close>.\<close>

record listing_entry =
  entry_id :: string
  entry_channel :: string
  entry_text :: string
  entry_time :: datetime
  entry_minutes :: int
  entry_active :: bool

text \<open>What the handlers answer to the operator.\<close>

datatype reply =
    Unauthorized
  | Welcome
  | HelpText
  | AddChannelUsage
  | InvalidChannelId
  | ChannelNameExists string
  | ChannelAdded string string
  | NoChannels
  | ChannelList "(string \<times> string) list"
  | DeleteChannelUsage
  | ChannelNotFound string
  | ChannelHasMessages string
  | ChannelDeleted string
  | ScheduleUsage
  | ScheduleChannelNotFound string
  | PositiveTimeRequired
  | MessageTooLong
  | Scheduled string string datetime string
  | ValidNumberRequired
  | NoScheduledMessages
  | ScheduledList "listing_entry list"
  | QueryAnswered
  | MessageEnabled string string
  | MessageDisabled string string
  | MessageDeleted

datatype log_entry =
    ErrorLoadingChannels
  | ErrorLoadingMessages
  | ErrorSavingData
  | ErrorSending string
  | InfoSent string string
  | InfoStarting

datatype error = AttributeError | OverflowError | TransportError

text \<open>
  The globals of the module and its environment: the two dictionaries, the two files and
  whether they can be opened for writing, the job queue with the next free job handle, the
  calls of \<^verbatim>\<open>bot.send_message\<close>, the replies to the operator, and the log.
\<close>

record bot_state =
  channels :: "(string \<times> string) list"
  scheduled_messages :: "(string \<times> scheduled_message) list"
  channels_file :: "string json_file"
  messages_file :: "saved_message json_file"
  disk_writable :: bool
  job_queue :: "queue_job list"
  next_job_id :: nat
  sent :: "(chat_ref \<times> outgoing) list"
  replies :: "reply list"
  logged :: "log_entry list"

text \<open>\<^verbatim>\<open>k in d\<close> for a dictionary.\<close>

definition has_key :: "('k \<times> 'v) list \<Rightarrow> 'k \<Rightarrow> bool" where
  "has_key d k = (k \<in> set (map fst d))"

text \<open>The dictionary \<^verbatim>\<open>json.load\<close> builds from the members of a JSON object.\<close>

definition json_object :: "(string \<times> 'a) list \<Rightarrow> (string \<times> 'a) list" where
  "json_object ms = foldl (\<lambda>d (k, v). AList.update k v d) [] ms"

subsection \<open>Persistence\<close>

text \<open>The \<^verbatim>\<open>ScheduledMessage\<close> that \<^verbatim>\<open>load_data\<close> builds from an entry: no job.\<close>

definition from_saved :: "string \<Rightarrow> saved_message \<Rightarrow> scheduled_message" where
  "from_saved msg_id d =
     \<lparr>message_id = msg_id, chat_id = saved_chat_id d, msg_text = saved_text d,
      scheduled_time = saved_scheduled_time d, channel = saved_channel d,
      job = None, active = saved_active d\<rparr>"

definition to_saved :: "scheduled_message \<Rightarrow> saved_message" where
  "to_saved m =
     \<lparr>saved_chat_id = chat_id m, saved_text = msg_text m,
      saved_scheduled_time = scheduled_time m, saved_channel = channel m,
      saved_active = active m\<rparr>"

definition load_channels :: "bot_state \<Rightarrow> bot_state" where
  "load_channels s =
     (case channels_file s of
        Missing \<Rightarrow> s
      | Corrupt \<Rightarrow> s\<lparr>channels := [], logged := logged s @ [ErrorLoadingChannels]\<rparr>
      | Content ms \<Rightarrow> s\<lparr>channels := json_object ms\<rparr>)"

definition load_messages :: "bot_state \<Rightarrow> bot_state" where
  "load_messages s =
     (case messages_file s of
        Missing \<Rightarrow> s
      | Corrupt \<Rightarrow> s\<lparr>scheduled_messages := [], logged := logged s @ [ErrorLoadingMessages]\<rparr>
      | Content ms \<Rightarrow>
          s\<lparr>scheduled_messages :=
              foldl (\<lambda>d (msg_id, msg_data). AList.update msg_id (from_saved msg_id msg_data) d)
                (scheduled_messages s) (json_object ms)\<rparr>)"

definition load_data :: "bot_state \<Rightarrow> bot_state" where
  "load_data s = load_messages (load_channels s)"

text \<open>
  \<^verbatim>\<open>save_data\<close> writes both files, or logs the error when the files cannot be opened for
  writing. A failure after the first file has been rewritten is not modelled.
\<close>

definition save_data :: "bot_state \<Rightarrow> bot_state" where
  "save_data s =
     (if disk_writable s
      then s\<lparr>channels_file := Content (channels s),
             messages_file := Content (map (\<lambda>(msg_id, msg_data). (msg_id, to_saved msg_data))
                                        (scheduled_messages s))\<rparr>
      else s\<lparr>logged := logged s @ [ErrorSavingData]\<rparr>)"

subsection \<open>Job queue and transport\<close>

text \<open>
  \<^verbatim>\<open>job_queue.run_once(send_scheduled_message, when, data=d, name=n)\<close> returns the handle
  of the new job; \<^verbatim>\<open>job.schedule_removal()\<close> takes the job out of the queue.
\<close>

definition run_once :: "int \<Rightarrow> string \<Rightarrow> string \<Rightarrow> bot_state \<Rightarrow> nat \<times> bot_state" where
  "run_once when d n s =
     (next_job_id s,
      s\<lparr>job_queue := job_queue s @
            [\<lparr>job_id = next_job_id s, job_when = when, job_data = d, job_name = n\<rparr>],
        next_job_id := Suc (next_job_id s)\<rparr>)"

definition schedule_removal :: "nat \<Rightarrow> bot_state \<Rightarrow> bot_state" where
  "schedule_removal j s = s\<lparr>job_queue := filter (\<lambda>q. job_id q \<noteq> j) (job_queue s)\<rparr>"

text \<open>
  \<^verbatim>\<open>context.bot.send_message(chat_id=c, text=t)\<close>. The transport decides whether the call
  returns (\<^const>\<open>True\<close>) or raises; the call is recorded either way.
\<close>

type_synonym transport = "chat_ref \<Rightarrow> outgoing \<Rightarrow> bool"

definition send_message :: "transport \<Rightarrow> chat_ref \<Rightarrow> outgoing \<Rightarrow> bot_state \<Rightarrow> bool \<times> bot_state" where
  "send_message tr c t s = (tr c t, s\<lparr>sent := sent s @ [(c, t)]\<rparr>)"

subsection \<open>Updates, replies and the authorization check\<close>

text \<open>
  What a handler reads of its \<^verbatim>\<open>Update\<close>: the user, the chat, whether \<^verbatim>\<open>update.message\<close>
  is set (it is not for a callback query or an edited message), and the data of the
  callback query. \<^verbatim>\<open>context.args\<close> is an argument of the command handlers.
\<close>

record update =
  effective_user_id :: int
  effective_chat_id :: int
  has_message :: bool
  callback_data :: string

text \<open>
  A handler returns the state it leaves behind, with the exception that left it if one
  did. \<^verbatim>\<open>update.message.reply_text(r)\<close> raises \<^verbatim>\<open>AttributeError\<close> when there is no
  message.
\<close>

type_synonym outcome = "error option \<times> bot_state"

definition reply_text :: "update \<Rightarrow> reply \<Rightarrow> bot_state \<Rightarrow> outcome" where
  "reply_text upd r s =
     (if has_message upd then (None, s\<lparr>replies := replies s @ [r]\<rparr>)
      else (Some AttributeError, s))"

definition check_authorized :: "int \<Rightarrow> update \<Rightarrow> bot_state \<Rightarrow> bool \<times> bot_state" where
  "check_authorized your_user_id upd s =
     (if effective_user_id upd \<noteq> your_user_id
      then (False, if has_message upd then s\<lparr>replies := replies s @ [Unauthorized]\<rparr> else s)
      else (True, s))"

subsection \<open>Command handlers\<close>

definition start :: "int \<Rightarrow> update \<Rightarrow> bot_state \<Rightarrow> outcome" where
  "start your_user_id upd s0 =
     (let (ok, s) = check_authorized your_user_id upd s0
      in if \<not> ok then (None, s) else reply_text upd Welcome s)"

definition help_command :: "int \<Rightarrow> update \<Rightarrow> bot_state \<Rightarrow> outcome" where
  "help_command your_user_id upd s0 =
     (let (ok, s) = check_authorized your_user_id upd s0
      in if \<not> ok then (None, s) else reply_text upd HelpText s)"

definition add_channel :: "int \<Rightarrow> update \<Rightarrow> string list \<Rightarrow> bot_state \<Rightarrow> outcome" where
  "add_channel your_user_id upd args s0 =
     (let (ok, s) = check_authorized your_user_id upd s0
      in if \<not> ok then (None, s)
         else if length args < 2 then reply_text upd AddChannelUsage s
         else
           let channel_id = args ! 0; channel_name = lower (args ! 1)
           in if \<not> startswith channel_id ''-100'' then reply_text upd InvalidChannelId s
              else if has_key (channels s) channel_name
                then reply_text upd (ChannelNameExists channel_name) s
              else reply_text upd (ChannelAdded channel_name channel_id)
                     (save_data
                        (s\<lparr>channels := AList.update channel_name channel_id (channels s)\<rparr>)))"

definition list_channels :: "int \<Rightarrow> update \<Rightarrow> bot_state \<Rightarrow> outcome" where
  "list_channels your_user_id upd s0 =
     (let (ok, s) = check_authorized your_user_id upd s0
      in if \<not> ok then (None, s)
         else if channels s = [] then reply_text upd NoChannels s
         else reply_text upd (ChannelList (channels s)) s)"

definition delete_channel :: "int \<Rightarrow> update \<Rightarrow> string list \<Rightarrow> bot_state \<Rightarrow> outcome" where
  "delete_channel your_user_id upd args s0 =
     (let (ok, s) = check_authorized your_user_id upd s0
      in if \<not> ok then (None, s)
         else if args = [] then reply_text upd DeleteChannelUsage s
         else
           let channel_name = lower (args ! 0)
           in if \<not> has_key (channels s) channel_name
                then reply_text upd (ChannelNotFound channel_name) s
              else
                let channel_has_messages =
                      list_ex (\<lambda>(msg_id, msg). channel msg = channel_name) (scheduled_messages s)
                in if channel_has_messages
                     then reply_text upd (ChannelHasMessages channel_name) s
                   else reply_text upd (ChannelDeleted channel_name)
                          (save_data
                             (s\<lparr>channels := AList.delete channel_name (channels s)\<rparr>)))"

text \<open>
  \<^verbatim>\<open>schedule_message\<close> reads the clock twice: \<open>now1\<close> for the scheduled time, \<open>now2\<close> for
  the message id. The \<^verbatim>\<open>ValueError\<close> of \<^verbatim>\<open>int\<close> is caught and answered; the
  \<^verbatim>\<open>OverflowError\<close> of the date arithmetic is not.
\<close>

definition schedule_message ::
  "int \<Rightarrow> datetime \<Rightarrow> datetime \<Rightarrow> update \<Rightarrow> string list \<Rightarrow> bot_state \<Rightarrow> outcome" where
  "schedule_message your_user_id now1 now2 upd args s0 =
     (let (ok, s) = check_authorized your_user_id upd s0
      in if \<not> ok then (None, s)
         else if length args < 3 then reply_text upd ScheduleUsage s
         else
           let channel_name = lower (args ! 0)
           in case py_int (args ! 1) of
                None \<Rightarrow> reply_text upd ValidNumberRequired s
              | Some time_minutes \<Rightarrow>
                  let message_text = join_space (drop 2 args)
                  in if \<not> has_key (channels s) channel_name
                       then reply_text upd (ScheduleChannelNotFound channel_name) s
                     else if time_minutes \<le> 0 then reply_text upd PositiveTimeRequired s
                     else if length message_text > 4000 then reply_text upd MessageTooLong s
                     else
                      (case datetime_add now1 (timedelta_minutes time_minutes) of
                         None \<Rightarrow> (Some OverflowError, s)
                       | Some sched_time \<Rightarrow>
                           let msg_id = ''msg_'' @ str_int (timestamp_int now2);
                               s1 = s\<lparr>scheduled_messages :=
                                      AList.update msg_id
                                        \<lparr>message_id = msg_id,
                                         chat_id = effective_chat_id upd,
                                         msg_text = message_text,
                                         scheduled_time = sched_time,
                                         channel = channel_name,
                                         job = None,
                                         active = True\<rparr>
                                        (scheduled_messages s)\<rparr>;
                               (j, s2) = run_once (time_minutes * 60) msg_id msg_id s1;
                               s3 = s2\<lparr>scheduled_messages :=
                                      AList.map_entry msg_id (\<lambda>m. m\<lparr>job := Some j\<rparr>)
                                        (scheduled_messages s2)\<rparr>
                           in reply_text upd
                                (Scheduled message_text channel_name sched_time msg_id)
                                (save_data s3)))"

text \<open>\<^verbatim>\<open>list_scheduled_messages\<close>, with the clock reading \<open>now\<close> of its loop.\<close>

definition listing :: "datetime \<Rightarrow> (string \<times> scheduled_message) list \<Rightarrow> listing_entry list" where
  "listing now d =
     map (\<lambda>(msg_id, msg_data).
            \<lparr>entry_id = msg_id,
             entry_channel = channel msg_data,
             entry_text = take 50 (msg_text msg_data),
             entry_time = scheduled_time msg_data,
             entry_minutes = minutes_remaining (scheduled_time msg_data - now),
             entry_active = active msg_data\<rparr>) d"

definition list_scheduled_messages :: "int \<Rightarrow> datetime \<Rightarrow> update \<Rightarrow> bot_state \<Rightarrow> outcome" where
  "list_scheduled_messages your_user_id now upd s0 =
     (let (ok, s) = check_authorized your_user_id upd s0
      in if \<not> ok then (None, s)
         else if scheduled_messages s = [] then reply_text upd NoScheduledMessages s
         else reply_text upd (ScheduledList (listing now (scheduled_messages s))) s)"

subsection \<open>The job callback\<close>

text \<open>
  The \<^verbatim>\<open>except\<close> branch of \<^verbatim>\<open>send_scheduled_message\<close>: log, then tell the requester. An
  exception of this last call leaves the callback.
\<close>

definition send_failed :: "transport \<Rightarrow> scheduled_message \<Rightarrow> bot_state \<Rightarrow> outcome" where
  "send_failed tr message_data s =
     (let s1 = s\<lparr>logged := logged s @ [ErrorSending (channel message_data)]\<rparr>;
          (ok, s2) = send_message tr (ChatRef (chat_id message_data))
                       (NotifyError (channel message_data)) s1
      in if ok then (None, s2) else (Some TransportError, s2))"

text \<open>The \<^verbatim>\<open>try\<close> block: send to the channel, log, tell the requester.\<close>

definition try_send :: "transport \<Rightarrow> string \<Rightarrow> scheduled_message \<Rightarrow> bot_state \<Rightarrow> outcome" where
  "try_send tr msg_id message_data s =
     (case map_of (channels s) (channel message_data) of
        None \<Rightarrow> send_failed tr message_data s
      | Some channel_id \<Rightarrow>
          let (ok1, s1) = send_message tr (ChannelRef channel_id)
                            (Plain (msg_text message_data)) s
          in if \<not> ok1 then send_failed tr message_data s1
             else
               let s2 = s1\<lparr>logged := logged s1 @ [InfoSent msg_id (channel message_data)]\<rparr>;
                   (ok2, s3) = send_message tr (ChatRef (chat_id message_data))
                                 (NotifySent (channel message_data) (msg_text message_data)) s2
               in if \<not> ok2 then send_failed tr message_data s3 else (None, s3))"

definition send_scheduled_message :: "transport \<Rightarrow> string \<Rightarrow> bot_state \<Rightarrow> outcome" where
  "send_scheduled_message tr msg_id s =
     (case map_of (scheduled_messages s) msg_id of
        None \<Rightarrow> (None, s)
      | Some message_data \<Rightarrow>
          let (err, s1) =
                (if active message_data \<and> has_key (channels s) (channel message_data)
                 then try_send tr msg_id message_data s
                 else (None, s))
          in (case err of
               Some e \<Rightarrow> (Some e, s1)
             | None \<Rightarrow>
                 if has_key (scheduled_messages s1) msg_id
                 then (None,
                       save_data
                         (s1\<lparr>scheduled_messages := AList.delete msg_id (scheduled_messages s1)\<rparr>))
                 else (None, s1)))"

subsection \<open>The button handler\<close>

definition button_handler :: "int \<Rightarrow> update \<Rightarrow> bot_state \<Rightarrow> outcome" where
  "button_handler your_user_id upd s0 =
     (let (ok, s) = check_authorized your_user_id upd s0
      in if \<not> ok then (None, s)
         else
           let s1 = s\<lparr>replies := replies s @ [QueryAnswered]\<rparr>;
               data = callback_data upd
           in if startswith data ''enable_'' then
                (let msg_id = drop 7 data
                 in case map_of (scheduled_messages s1) msg_id of
                      None \<Rightarrow> (None, s1)
                    | Some m \<Rightarrow>
                        let s2 = save_data
                                   (s1\<lparr>scheduled_messages :=
                                         AList.map_entry msg_id (\<lambda>m. m\<lparr>active := True\<rparr>)
                                           (scheduled_messages s1)\<rparr>)
                        in (None, s2\<lparr>replies := replies s2 @ [MessageEnabled (msg_text m) msg_id]\<rparr>))
              else if startswith data ''disable_'' then
                (let msg_id = drop 8 data
                 in case map_of (scheduled_messages s1) msg_id of
                      None \<Rightarrow> (None, s1)
                    | Some m \<Rightarrow>
                        let s2 = save_data
                                   (s1\<lparr>scheduled_messages :=
                                         AList.map_entry msg_id (\<lambda>m. m\<lparr>active := False\<rparr>)
                                           (scheduled_messages s1)\<rparr>)
                        in (None, s2\<lparr>replies := replies s2 @ [MessageDisabled (msg_text m) msg_id]\<rparr>))
              else if startswith data ''delete_'' then
                (let msg_id = drop 7 data
                 in case map_of (scheduled_messages s1) msg_id of
                      None \<Rightarrow> (None, s1)
                    | Some m \<Rightarrow>
                        let s2 = (case job m of
                                    Some j \<Rightarrow> schedule_removal j s1
                                  | None \<Rightarrow> s1);
                            s3 = save_data
                                   (s2\<lparr>scheduled_messages :=
                                         AList.delete msg_id (scheduled_messages s2)\<rparr>)
                        in (None, s3\<lparr>replies := replies s3 @ [MessageDeleted]\<rparr>))
              else (None, s1))"

subsection \<open>Start of the process\<close>

text \<open>
  The state a fresh process starts from: empty dictionaries, an empty job queue, and the
  files as the disk holds them. \<^verbatim>\<open>main\<close> loads the files and starts polling; it arms no
  job.
\<close>

definition initial_state :: "string json_file \<Rightarrow> saved_message json_file \<Rightarrow> bool \<Rightarrow> bot_state" where
  "initial_state cf mf w =
     \<lparr>channels = [], scheduled_messages = [], channels_file = cf, messages_file = mf,
      disk_writable = w, job_queue = [], next_job_id = 0, sent = [], replies = [],
      logged = []\<rparr>"

definition main :: "string json_file \<Rightarrow> saved_message json_file \<Rightarrow> bool \<Rightarrow> bot_state" where
  "main cf mf w =
     (let s = load_data (initial_state cf mf w) in s\<lparr>logged := logged s @ [InfoStarting]\<rparr>)"

subsection \<open>Dispatch\<close>

text \<open>
  The handler table that \<^verbatim>\<open>main\<close> registers: seven commands and the callback queries of
  the buttons. An update that matches no handler is dropped. \<open>now1\<close> and \<open>now2\<close> are
  the clock readings the handler may take.
\<close>

datatype event = Command string "string list" | CallbackQuery

definition handle_update ::
  "int \<Rightarrow> datetime \<Rightarrow> datetime \<Rightarrow> update \<Rightarrow> event \<Rightarrow> bot_state \<Rightarrow> outcome" where
  "handle_update your_user_id now1 now2 upd ev s =
     (case ev of
        Command name args \<Rightarrow>
          if name = ''start'' then start your_user_id upd s
          else if name = ''help'' then help_command your_user_id upd s
          else if name = ''addchannel'' then add_channel your_user_id upd args s
          else if name = ''listchannels'' then list_channels your_user_id upd s
          else if name = ''deletechannel'' then delete_channel your_user_id upd args s
          else if name = ''schedule'' then schedule_message your_user_id now1 now2 upd args s
          else if name = ''listschedule'' then list_scheduled_messages your_user_id now1 upd s
          else (None, s)
      | CallbackQuery \<Rightarrow> button_handler your_user_id upd s)"

text \<open>
  A run of the bot over a sequence of updates, each with its clock readings. An exception
  that leaves a handler is logged by the framework and the next update is handled in the
  state the handler left.
\<close>

fun run :: "int \<Rightarrow> (datetime \<times> datetime \<times> update \<times> event) list \<Rightarrow> bot_state \<Rightarrow> bot_state" where
  "run your_user_id [] s = s"
| "run your_user_id ((now1, now2, upd, ev) # rest) s =
     run your_user_id rest (snd (handle_update your_user_id now1 now2 upd ev s))"

text \<open>The state without the replies shown to users: dictionaries, files, jobs, sends, log.\<close>

definition stores :: "bot_state \<Rightarrow> bot_state" where
  "stores s = s\<lparr>replies := []\<rparr>"

definition from_operator :: "int \<Rightarrow> datetime \<times> datetime \<times> update \<times> event \<Rightarrow> bool" where
  "from_operator your_user_id x = (case x of (now1, now2, upd, ev) \<Rightarrow> effective_user_id upd = your_user_id)"

subsection \<open>Jobs and registered channels\<close>

text \<open>
  Every job of the queue whose message is still in \<^verbatim>\<open>scheduled_messages\<close> finds the channel
  of that message in \<^verbatim>\<open>channels\<close>.
\<close>

definition queue_ok :: "bot_state \<Rightarrow> bool" where
  "queue_ok s =
     list_all (\<lambda>j. case map_of (scheduled_messages s) (job_data j) of
                    None \<Rightarrow> True
                  | Some m \<Rightarrow> has_key (channels s) (channel m))
       (job_queue s)"

subsection \<open>Concrete states for the examples\<close>

text \<open>
  The operator is user 7. \<open>ex_state\<close> is the state after \<^verbatim>\<open>/addchannel -100555 ops\<close> and
  \<^verbatim>\<open>/schedule ops 10 hello\<close> issued five seconds after the start of the clock, with the
  replies to the two commands left out.
\<close>

definition ex_message :: scheduled_message where
  "ex_message =
     \<lparr>message_id = ''msg_5'', chat_id = 7, msg_text = ''hello'',
      scheduled_time = 605000000, channel = ''ops'', job = Some 0, active = True\<rparr>"

definition ex_state :: bot_state where
  "ex_state =
     \<lparr>channels = [(''ops'', ''-100555'')],
      scheduled_messages = [(''msg_5'', ex_message)],
      channels_file = Content [(''ops'', ''-100555'')],
      messages_file = Content [(''msg_5'', to_saved ex_message)],
      disk_writable = True,
      job_queue = [\<lparr>job_id = 0, job_when = 600, job_data = ''msg_5'', job_name = ''msg_5''\<rparr>],
      next_job_id = 1, sent = [], replies = [], logged = []\<rparr>"

definition ex_command :: update where
  "ex_command =
     \<lparr>effective_user_id = 7, effective_chat_id = 7, has_message = True, callback_data = []\<rparr>"

definition ex_button :: "string \<Rightarrow> update" where
  "ex_button d =
     \<lparr>effective_user_id = 7, effective_chat_id = 7, has_message = False, callback_data = d\<rparr>"

section \<open>Properties\<close>

subsection \<open>Dictionaries and strings\<close>

lemma has_key_map_of: "has_key d k \<longleftrightarrow> map_of d k \<noteq> None"
  by (simp add: has_key_def map_of_eq_None_iff)

lemma map_of_delete_same: "map_of (AList.delete k d) k = None"
  by (simp add: delete_conv)

subsection \<open>The job callback\<close>

lemma fire_absent:
  "map_of (scheduled_messages s) msg_id = None \<Longrightarrow>
     send_scheduled_message tr msg_id s = (None, s)"
  by (simp add: send_scheduled_message_def)

lemma fire_returns_absent:
  assumes "send_scheduled_message tr msg_id s = (None, s')"
  shows "map_of (scheduled_messages s') msg_id = None"
proof (cases "map_of (scheduled_messages s) msg_id")
  case None
  with assms show ?thesis by (simp add: send_scheduled_message_def)
next
  case (Some m)
  with assms show ?thesis
    by (auto simp: send_scheduled_message_def save_data_def has_key_map_of map_of_delete_same
        split: prod.splits option.splits if_splits)
qed

lemmas ex_defs = ex_state_def ex_message_def ex_command_def ex_button_def
lemmas fire_defs = send_scheduled_message_def try_send_def send_message_def send_failed_def
  has_key_def save_data_def Let_def

subsection \<open>The button handler\<close>

lemma delete_button_absent:
  assumes "effective_user_id upd = your_user_id"
    and "map_of (scheduled_messages s) msg_id = None"
  shows "button_handler your_user_id (upd\<lparr>callback_data := ''delete_'' @ msg_id\<rparr>) s =
           (None, s\<lparr>replies := replies s @ [QueryAnswered]\<rparr>)"
  using assms
  by (simp add: button_handler_def check_authorized_def startswith_def Let_def)

lemma delete_button_result_absent:
  assumes "effective_user_id upd = your_user_id"
    and "button_handler your_user_id (upd\<lparr>callback_data := ''delete_'' @ msg_id\<rparr>) s = (e, s')"
  shows "map_of (scheduled_messages s') msg_id = None"
  using assms
  by (auto simp: button_handler_def check_authorized_def startswith_def
      save_data_def schedule_removal_def map_of_delete_same Let_def
      split: option.splits if_splits)

section \<open>The claims\<close>

text \<open>
  Claim C9. A job callback for a message id that is not in \<^verbatim>\<open>scheduled_messages\<close> returns
  at once and leaves the whole state as it is: nothing is sent, nothing is saved. A
  callback that returned has removed its message, so a second callback for the same id is
  such a no-op. The delete button for an absent id only answers the query, and pressing it
  a second time raises nothing and changes nothing else.
\<close>

theorem absent_delivery_noop:
  assumes auth: "effective_user_id upd = your_user_id"
  shows "(map_of (scheduled_messages s) msg_id = None \<longrightarrow>
            send_scheduled_message tr msg_id s = (None, s) \<and>
            button_handler your_user_id (upd\<lparr>callback_data := ''delete_'' @ msg_id\<rparr>) s =
              (None, s\<lparr>replies := replies s @ [QueryAnswered]\<rparr>)) \<and>
         (send_scheduled_message tr msg_id s = (None, s1) \<longrightarrow>
            send_scheduled_message tr2 msg_id s1 = (None, s1)) \<and>
         (button_handler your_user_id (upd\<lparr>callback_data := ''delete_'' @ msg_id\<rparr>) s = (e, s2) \<longrightarrow>
            button_handler your_user_id (upd\<lparr>callback_data := ''delete_'' @ msg_id\<rparr>) s2 =
              (None, s2\<lparr>replies := replies s2 @ [QueryAnswered]\<rparr>))"
  using auth fire_absent fire_returns_absent delete_button_absent delete_button_result_absent
  by blast

theorem absent_delivery_noop_witness:
  "effective_user_id (ex_button []) = 7 \<and>
   map_of (scheduled_messages ex_state) ''msg_9'' = None \<and>
   send_scheduled_message (\<lambda>c t. True) ''msg_9'' ex_state = (None, ex_state) \<and>
   button_handler 7 (ex_button ''delete_msg_9'') ex_state =
     (None, ex_state\<lparr>replies := [QueryAnswered]\<rparr>) \<and>
   fst (send_scheduled_message (\<lambda>c t. True) ''msg_5'' ex_state) = None \<and>
   send_scheduled_message (\<lambda>c t. True) ''msg_5''
       (snd (send_scheduled_message (\<lambda>c t. True) ''msg_5'' ex_state)) =
     (None, snd (send_scheduled_message (\<lambda>c t. True) ''msg_5'' ex_state))"
proof -
  have auth: "effective_user_id (ex_button []) = 7"
    by (simp add: ex_defs)
  have absent: "map_of (scheduled_messages ex_state) ''msg_9'' = None"
    by (simp add: ex_defs)
  have fired: "send_scheduled_message (\<lambda>c t. True) ''msg_5'' ex_state =
      (None, snd (send_scheduled_message (\<lambda>c t. True) ''msg_5'' ex_state))"
    by (simp add: fire_defs ex_defs)
  have upd: "(ex_button [])\<lparr>callback_data := ''delete_'' @ ''msg_9''\<rparr> = ex_button ''delete_msg_9''"
    by (simp add: ex_defs)
  have r: "replies ex_state = []"
    by (simp add: ex_defs)
  from absent_delivery_noop [OF auth, of ex_state "''msg_9''" "\<lambda>c t. True"] absent upd r
  have one: "send_scheduled_message (\<lambda>c t. True) ''msg_9'' ex_state = (None, ex_state) \<and>
      button_handler 7 (ex_button ''delete_msg_9'') ex_state =
        (None, ex_state\<lparr>replies := [QueryAnswered]\<rparr>)"
    by simp
  from absent_delivery_noop [OF auth, of ex_state "''msg_5''" "\<lambda>c t. True"
      "snd (send_scheduled_message (\<lambda>c t. True) ''msg_5'' ex_state)" "\<lambda>c t. True"] fired
  have two: "send_scheduled_message (\<lambda>c t. True) ''msg_5''
       (snd (send_scheduled_message (\<lambda>c t. True) ''msg_5'' ex_state)) =
     (None, snd (send_scheduled_message (\<lambda>c t. True) ''msg_5'' ex_state))"
    by blast
  from fired have three: "fst (send_scheduled_message (\<lambda>c t. True) ''msg_5'' ex_state) = None"
    by (metis fst_conv)
  from auth absent one two three show ?thesis
    by blast
qed

subsection \<open>Skipped sends\<close>

lemma listing_ids: "map entry_id (listing now d) = map fst d"
  by (induction d) (auto simp: listing_def)

lemma keys_delete: "k \<notin> fst ` set (AList.delete k d)"
  by (auto simp: AList.delete_eq)

lemma fire_skipped:
  assumes "map_of (scheduled_messages s) msg_id = Some m"
    and "\<not> (active m \<and> has_key (channels s) (channel m))"
  shows "send_scheduled_message tr msg_id s =
      (None, save_data (s\<lparr>scheduled_messages := AList.delete msg_id (scheduled_messages s)\<rparr>))"
  using assms by (auto simp: send_scheduled_message_def has_key_map_of)

lemma save_data_frame:
  "channels (save_data s) = channels s"
  "scheduled_messages (save_data s) = scheduled_messages s"
  "job_queue (save_data s) = job_queue s"
  "next_job_id (save_data s) = next_job_id s"
  "sent (save_data s) = sent s"
  "replies (save_data s) = replies s"
  "disk_writable (save_data s) = disk_writable s"
  by (simp_all add: save_data_def)

text \<open>
  Claim C4. When the job callback runs for a message whose \<^verbatim>\<open>active\<close> flag is off,
  \<^verbatim>\<open>bot.send_message\<close> is not called at all, the callback returns normally, the message
  is deleted from \<^verbatim>\<open>scheduled_messages\<close> and the data saved, and the listing of
  \<^verbatim>\<open>/listschedule\<close> has no entry for it any more.
\<close>

theorem disabled_fire_retires_without_send:
  assumes "map_of (scheduled_messages s) msg_id = Some m"
    and "\<not> active m"
  shows "send_scheduled_message tr msg_id s =
           (None, save_data (s\<lparr>scheduled_messages := AList.delete msg_id (scheduled_messages s)\<rparr>)) \<and>
         sent (snd (send_scheduled_message tr msg_id s)) = sent s \<and>
         map_of (scheduled_messages (snd (send_scheduled_message tr msg_id s))) msg_id = None \<and>
         msg_id \<notin> set (map entry_id
            (listing now (scheduled_messages (snd (send_scheduled_message tr msg_id s)))))"
  using assms fire_skipped [of s msg_id m tr]
  by (simp add: save_data_frame map_of_delete_same listing_ids keys_delete)

theorem disabled_fire_retires_without_send_witness:
  "map_of (scheduled_messages (ex_state\<lparr>scheduled_messages := [(''msg_5'', ex_message\<lparr>active := False\<rparr>)]\<rparr>))
      ''msg_5'' = Some (ex_message\<lparr>active := False\<rparr>) \<and>
   \<not> active (ex_message\<lparr>active := False\<rparr>) \<and>
   sent (snd (send_scheduled_message (\<lambda>c t. True) ''msg_5''
      (ex_state\<lparr>scheduled_messages := [(''msg_5'', ex_message\<lparr>active := False\<rparr>)]\<rparr>))) = [] \<and>
   scheduled_messages (snd (send_scheduled_message (\<lambda>c t. True) ''msg_5''
      (ex_state\<lparr>scheduled_messages := [(''msg_5'', ex_message\<lparr>active := False\<rparr>)]\<rparr>))) = []"
  using disabled_fire_retires_without_send
    [of "ex_state\<lparr>scheduled_messages := [(''msg_5'', ex_message\<lparr>active := False\<rparr>)]\<rparr>"
       "''msg_5''" "ex_message\<lparr>active := False\<rparr>" "\<lambda>c t. True" 0]
  by (simp add: ex_defs save_data_frame)

subsection \<open>Replies do not steer the handlers\<close>

lemmas handler_defs = start_def help_command_def add_channel_def list_channels_def
  delete_channel_def schedule_message_def list_scheduled_messages_def button_handler_def

lemma unauthorized_handler:
  assumes "effective_user_id upd \<noteq> your_user_id"
  shows "fst (handle_update your_user_id now1 now2 upd ev s) = None \<and>
         stores (snd (handle_update your_user_id now1 now2 upd ev s)) = stores s"
  using assms
  by (cases ev) (simp_all add: handle_update_def handler_defs check_authorized_def stores_def)

lemma check_authorized_operator:
  "effective_user_id upd = your_user_id \<Longrightarrow> check_authorized your_user_id upd s = (True, s)"
  by (simp add: check_authorized_def)

lemma stores_replies [simp]: "stores (s\<lparr>replies := rs\<rparr>) = stores s"
  by (simp add: stores_def)

lemma stores_reply_text [simp]: "stores (snd (reply_text upd r s)) = stores s"
  by (simp add: reply_text_def)

lemma stores_save_data: "stores (save_data s) = save_data (stores s)"
  by (simp add: save_data_def stores_def)

lemma stores_fields [simp]:
  "channels (stores s) = channels s"
  "scheduled_messages (stores s) = scheduled_messages s"
  "channels_file (stores s) = channels_file s"
  "messages_file (stores s) = messages_file s"
  "disk_writable (stores s) = disk_writable s"
  "job_queue (stores s) = job_queue s"
  "next_job_id (stores s) = next_job_id s"
  "sent (stores s) = sent s"
  "logged (stores s) = logged s"
  by (simp_all add: stores_def)

lemma stores_updates:
  "stores (s\<lparr>channels := c\<rparr>) = (stores s)\<lparr>channels := c\<rparr>"
  "stores (s\<lparr>scheduled_messages := m\<rparr>) = (stores s)\<lparr>scheduled_messages := m\<rparr>"
  "stores (s\<lparr>job_queue := q\<rparr>) = (stores s)\<lparr>job_queue := q\<rparr>"
  "stores (s\<lparr>next_job_id := n\<rparr>) = (stores s)\<lparr>next_job_id := n\<rparr>"
  by (simp_all add: stores_def)

lemma i_add: "effective_user_id upd = uid \<Longrightarrow>
  stores (snd (add_channel uid upd args (s\<lparr>replies := rs\<rparr>))) = stores (snd (add_channel uid upd args s))"
  by (simp add: add_channel_def check_authorized_operator Let_def stores_save_data stores_updates)

lemma i_start: "effective_user_id upd = uid \<Longrightarrow>
  stores (snd (start uid upd (s\<lparr>replies := rs\<rparr>))) = stores (snd (start uid upd s))"
  by (simp add: start_def check_authorized_operator)

lemma i_help: "effective_user_id upd = uid \<Longrightarrow>
  stores (snd (help_command uid upd (s\<lparr>replies := rs\<rparr>))) = stores (snd (help_command uid upd s))"
  by (simp add: help_command_def check_authorized_operator)

lemma i_list: "effective_user_id upd = uid \<Longrightarrow>
  stores (snd (list_channels uid upd (s\<lparr>replies := rs\<rparr>))) = stores (snd (list_channels uid upd s))"
  by (simp add: list_channels_def check_authorized_operator)

lemma i_delete: "effective_user_id upd = uid \<Longrightarrow>
  stores (snd (delete_channel uid upd args (s\<lparr>replies := rs\<rparr>))) = stores (snd (delete_channel uid upd args s))"
  by (simp add: delete_channel_def check_authorized_operator Let_def stores_save_data stores_updates)

lemma i_listsched: "effective_user_id upd = uid \<Longrightarrow>
  stores (snd (list_scheduled_messages uid now upd (s\<lparr>replies := rs\<rparr>))) =
  stores (snd (list_scheduled_messages uid now upd s))"
  by (simp add: list_scheduled_messages_def check_authorized_operator)

lemma i_schedule: "effective_user_id upd = uid \<Longrightarrow>
  stores (snd (schedule_message uid now1 now2 upd args (s\<lparr>replies := rs\<rparr>))) =
  stores (snd (schedule_message uid now1 now2 upd args s))"
  by (simp add: schedule_message_def check_authorized_operator Let_def run_once_def
      stores_save_data stores_updates split: option.splits)

lemma i_button: "effective_user_id upd = uid \<Longrightarrow>
  stores (snd (button_handler uid upd (s\<lparr>replies := rs\<rparr>))) =
  stores (snd (button_handler uid upd s))"
  by (simp add: button_handler_def check_authorized_operator Let_def schedule_removal_def
      stores_save_data stores_updates split: option.splits)

lemma handler_ignores_replies:
  "stores (snd (handle_update uid now1 now2 upd ev (s\<lparr>replies := rs\<rparr>))) =
   stores (snd (handle_update uid now1 now2 upd ev s))"
proof (cases "effective_user_id upd = uid")
  case False
  then show ?thesis by (simp add: unauthorized_handler)
next
  case True
  then show ?thesis
    by (cases ev)
      (simp_all add: handle_update_def i_start i_help i_add i_list i_delete i_listsched
        i_schedule i_button)
qed

lemma stores_eqD: "stores s = stores t \<Longrightarrow> t = s\<lparr>replies := replies t\<rparr>"
  by (cases s, cases t) (simp add: stores_def)

lemma handler_stores_cong:
  assumes "stores s = stores t"
  shows "stores (snd (handle_update uid now1 now2 upd ev s)) =
         stores (snd (handle_update uid now1 now2 upd ev t))"
proof -
  from assms have "t = s\<lparr>replies := replies t\<rparr>" by (rule stores_eqD)
  then have "stores (snd (handle_update uid now1 now2 upd ev t)) =
      stores (snd (handle_update uid now1 now2 upd ev (s\<lparr>replies := replies t\<rparr>)))"
    by simp
  also have "\<dots> = stores (snd (handle_update uid now1 now2 upd ev s))"
    by (rule handler_ignores_replies)
  finally show ?thesis by simp
qed

lemma from_operator_simp:
  "from_operator uid (now1, now2, upd, ev) \<longleftrightarrow> effective_user_id upd = uid"
  by (simp add: from_operator_def)

lemma run_filter_operator:
  "stores s = stores t \<Longrightarrow>
   stores (run uid evs s) = stores (run uid (filter (from_operator uid) evs) t)"
proof (induction evs arbitrary: s t)
  case Nil
  then show ?case by simp
next
  case (Cons x evs)
  obtain now1 now2 upd ev where x: "x = (now1, now2, upd, ev)"
    by (cases x) auto
  show ?case
  proof (cases "effective_user_id upd = uid")
    case True
    from Cons.prems have "stores (snd (handle_update uid now1 now2 upd ev s)) =
        stores (snd (handle_update uid now1 now2 upd ev t))"
      by (rule handler_stores_cong)
    then have "stores (run uid evs (snd (handle_update uid now1 now2 upd ev s))) =
        stores (run uid (filter (from_operator uid) evs)
          (snd (handle_update uid now1 now2 upd ev t)))"
      by (rule Cons.IH)
    with True x show ?thesis
      by (simp add: from_operator_simp)
  next
    case False
    then have "stores (snd (handle_update uid now1 now2 upd ev s)) = stores t"
      using Cons.prems by (simp add: unauthorized_handler)
    then have "stores (run uid evs (snd (handle_update uid now1 now2 upd ev s))) =
        stores (run uid (filter (from_operator uid) evs) t)"
      by (rule Cons.IH)
    with False x show ?thesis
      by (simp add: from_operator_simp)
  qed
qed

text \<open>
  Claim C10. A command or a button callback of a user other than the operator raises
  nothing and leaves the channels, the scheduled messages, both files, the job queue and
  the sends as they were; at most the reply "unauthorized" is added. Consequently a run
  over any sequence of updates ends in the same state, replies apart, as the run over the
  operator's updates alone.
\<close>

theorem unauthorized_user_mutates_nothing:
  assumes "effective_user_id upd \<noteq> your_user_id"
  shows "fst (handle_update your_user_id now1 now2 upd ev s) = None \<and>
         channels (snd (handle_update your_user_id now1 now2 upd ev s)) = channels s \<and>
         scheduled_messages (snd (handle_update your_user_id now1 now2 upd ev s)) =
           scheduled_messages s \<and>
         channels_file (snd (handle_update your_user_id now1 now2 upd ev s)) = channels_file s \<and>
         messages_file (snd (handle_update your_user_id now1 now2 upd ev s)) = messages_file s \<and>
         job_queue (snd (handle_update your_user_id now1 now2 upd ev s)) = job_queue s \<and>
         sent (snd (handle_update your_user_id now1 now2 upd ev s)) = sent s \<and>
         stores (snd (handle_update your_user_id now1 now2 upd ev s)) = stores s \<and>
         stores (run your_user_id evs s) =
           stores (run your_user_id (filter (from_operator your_user_id) evs) s)"
proof -
  from unauthorized_handler [OF assms, of now1 now2 ev s]
  have none: "fst (handle_update your_user_id now1 now2 upd ev s) = None"
    and st: "stores (snd (handle_update your_user_id now1 now2 upd ev s)) = stores s"
    by simp_all
  from st have
    "channels (stores (snd (handle_update your_user_id now1 now2 upd ev s))) = channels (stores s)"
    "scheduled_messages (stores (snd (handle_update your_user_id now1 now2 upd ev s))) =
       scheduled_messages (stores s)"
    "channels_file (stores (snd (handle_update your_user_id now1 now2 upd ev s))) =
       channels_file (stores s)"
    "messages_file (stores (snd (handle_update your_user_id now1 now2 upd ev s))) =
       messages_file (stores s)"
    "job_queue (stores (snd (handle_update your_user_id now1 now2 upd ev s))) = job_queue (stores s)"
    "sent (stores (snd (handle_update your_user_id now1 now2 upd ev s))) = sent (stores s)"
    by simp_all
  then have fields:
    "channels (snd (handle_update your_user_id now1 now2 upd ev s)) = channels s"
    "scheduled_messages (snd (handle_update your_user_id now1 now2 upd ev s)) = scheduled_messages s"
    "channels_file (snd (handle_update your_user_id now1 now2 upd ev s)) = channels_file s"
    "messages_file (snd (handle_update your_user_id now1 now2 upd ev s)) = messages_file s"
    "job_queue (snd (handle_update your_user_id now1 now2 upd ev s)) = job_queue s"
    "sent (snd (handle_update your_user_id now1 now2 upd ev s)) = sent s"
    by simp_all
  have "stores (run your_user_id evs s) =
      stores (run your_user_id (filter (from_operator your_user_id) evs) s)"
    by (rule run_filter_operator) simp
  with none st fields show ?thesis by simp
qed

theorem unauthorized_user_mutates_nothing_witness:
  "effective_user_id (ex_command\<lparr>effective_user_id := 8\<rparr>) \<noteq> 7 \<and>
   fst (handle_update 7 0 0 (ex_command\<lparr>effective_user_id := 8\<rparr>)
     (Command ''addchannel'' [''-100777'', ''spam'']) ex_state) = None \<and>
   channels (snd (handle_update 7 0 0 (ex_command\<lparr>effective_user_id := 8\<rparr>)
     (Command ''addchannel'' [''-100777'', ''spam'']) ex_state)) = [(''ops'', ''-100555'')] \<and>
   channels_file (snd (handle_update 7 0 0 (ex_command\<lparr>effective_user_id := 8\<rparr>)
     (Command ''addchannel'' [''-100777'', ''spam'']) ex_state)) =
     Content [(''ops'', ''-100555'')] \<and>
   scheduled_messages (snd (handle_update 7 0 0 (ex_command\<lparr>effective_user_id := 8\<rparr>)
     (Command ''addchannel'' [''-100777'', ''spam'']) ex_state)) = [(''msg_5'', ex_message)]"
proof -
  have hyp: "effective_user_id (ex_command\<lparr>effective_user_id := 8\<rparr>) \<noteq> 7"
    by simp
  from unauthorized_user_mutates_nothing [OF hyp, of 0 0
      "Command ''addchannel'' [''-100777'', ''spam'']" ex_state "[]"] hyp
  show ?thesis
    by (simp add: ex_state_def)
qed

subsection \<open>The ON and OFF buttons\<close>

lemma map_entry_twice:
  "AList.map_entry k f (AList.map_entry k g d) = AList.map_entry k (\<lambda>v. f (g v)) d"
  by (induction d) auto

lemma map_of_map_entry_same:
  "map_of d k = Some v \<Longrightarrow> map_of (AList.map_entry k f d) k = Some (f v)"
  by (induction d) auto

lemma map_entry_id:
  "map_of d k = Some v \<Longrightarrow> f v = v \<Longrightarrow> AList.map_entry k f d = d"
  by (induction d) (auto split: if_splits)

lemma disable_button:
  assumes "effective_user_id upd = your_user_id"
    and "map_of (scheduled_messages s) msg_id = Some m"
  shows "button_handler your_user_id (upd\<lparr>callback_data := ''disable_'' @ msg_id\<rparr>) s =
     (None, (save_data (s\<lparr>replies := replies s @ [QueryAnswered],
        scheduled_messages := AList.map_entry msg_id (\<lambda>m. m\<lparr>active := False\<rparr>) (scheduled_messages s)\<rparr>))
        \<lparr>replies := replies s @ [QueryAnswered, MessageDisabled (msg_text m) msg_id]\<rparr>)"
  using assms
  by (simp add: button_handler_def check_authorized_def startswith_def Let_def save_data_frame)

lemma enable_button:
  assumes "effective_user_id upd = your_user_id"
    and "map_of (scheduled_messages s) msg_id = Some m"
  shows "button_handler your_user_id (upd\<lparr>callback_data := ''enable_'' @ msg_id\<rparr>) s =
     (None, (save_data (s\<lparr>replies := replies s @ [QueryAnswered],
        scheduled_messages := AList.map_entry msg_id (\<lambda>m. m\<lparr>active := True\<rparr>) (scheduled_messages s)\<rparr>))
        \<lparr>replies := replies s @ [QueryAnswered, MessageEnabled (msg_text m) msg_id]\<rparr>)"
  using assms
  by (simp add: button_handler_def check_authorized_def startswith_def Let_def save_data_frame)

text \<open>
  Claim C7. For a message in \<^verbatim>\<open>scheduled_messages\<close>, the OFF button sets its \<^verbatim>\<open>active\<close>
  flag to false and nothing else; the ON button after it sets the flag to true and nothing
  else. The record then is the original one with \<^verbatim>\<open>active\<close> true: id, chat, text,
  scheduled time, channel and job are as before, every other entry and the order of the
  dictionary are untouched, and a message that was active is exactly as it was.
\<close>

theorem disable_then_enable_only_toggles_state:
  assumes auth: "effective_user_id upd = your_user_id"
    and present: "map_of (scheduled_messages s) msg_id = Some m"
  shows "scheduled_messages
           (snd (button_handler your_user_id (upd\<lparr>callback_data := ''disable_'' @ msg_id\<rparr>) s)) =
           AList.map_entry msg_id (\<lambda>m. m\<lparr>active := False\<rparr>) (scheduled_messages s) \<and>
         map_of (scheduled_messages
           (snd (button_handler your_user_id (upd\<lparr>callback_data := ''disable_'' @ msg_id\<rparr>) s)))
           msg_id = Some (m\<lparr>active := False\<rparr>) \<and>
         scheduled_messages
           (snd (button_handler your_user_id (upd\<lparr>callback_data := ''enable_'' @ msg_id\<rparr>)
             (snd (button_handler your_user_id (upd\<lparr>callback_data := ''disable_'' @ msg_id\<rparr>) s)))) =
           AList.map_entry msg_id (\<lambda>m. m\<lparr>active := True\<rparr>) (scheduled_messages s) \<and>
         map_of (scheduled_messages
           (snd (button_handler your_user_id (upd\<lparr>callback_data := ''enable_'' @ msg_id\<rparr>)
             (snd (button_handler your_user_id (upd\<lparr>callback_data := ''disable_'' @ msg_id\<rparr>) s)))))
           msg_id = Some (m\<lparr>active := True\<rparr>) \<and>
         (active m \<longrightarrow>
           scheduled_messages
             (snd (button_handler your_user_id (upd\<lparr>callback_data := ''enable_'' @ msg_id\<rparr>)
               (snd (button_handler your_user_id (upd\<lparr>callback_data := ''disable_'' @ msg_id\<rparr>) s)))) =
             scheduled_messages s)"
proof -
  define s1 where
    "s1 = snd (button_handler your_user_id (upd\<lparr>callback_data := ''disable_'' @ msg_id\<rparr>) s)"
  define s2 where
    "s2 = snd (button_handler your_user_id (upd\<lparr>callback_data := ''enable_'' @ msg_id\<rparr>) s1)"
  have d1: "scheduled_messages s1 =
      AList.map_entry msg_id (\<lambda>m. m\<lparr>active := False\<rparr>) (scheduled_messages s)"
    unfolding s1_def using disable_button [OF auth present] by (simp add: save_data_frame)
  with present have m1: "map_of (scheduled_messages s1) msg_id = Some (m\<lparr>active := False\<rparr>)"
    by (simp add: map_of_map_entry_same)
  have "scheduled_messages s2 =
      AList.map_entry msg_id (\<lambda>m. m\<lparr>active := True\<rparr>) (scheduled_messages s1)"
    unfolding s2_def using enable_button [OF auth m1] by (simp add: save_data_frame)
  with d1 have d2: "scheduled_messages s2 =
      AList.map_entry msg_id (\<lambda>m. m\<lparr>active := True\<rparr>) (scheduled_messages s)"
    by (simp add: map_entry_twice)
  with present have m2: "map_of (scheduled_messages s2) msg_id = Some (m\<lparr>active := True\<rparr>)"
    by (simp add: map_of_map_entry_same)
  have same: "scheduled_messages s2 = scheduled_messages s" if "active m"
    using d2 present that by (simp add: map_entry_id)
  from d1 m1 d2 m2 same show ?thesis
    unfolding s2_def s1_def by blast
qed

theorem disable_then_enable_only_toggles_state_witness:
  "effective_user_id (ex_button []) = 7 \<and>
   map_of (scheduled_messages ex_state) ''msg_5'' = Some ex_message \<and>
   active ex_message \<and>
   scheduled_messages (snd (button_handler 7 (ex_button ''disable_msg_5'') ex_state)) =
     [(''msg_5'', ex_message\<lparr>active := False\<rparr>)] \<and>
   scheduled_messages
     (snd (button_handler 7 (ex_button ''enable_msg_5'')
       (snd (button_handler 7 (ex_button ''disable_msg_5'') ex_state)))) =
     scheduled_messages ex_state"
proof -
  have auth: "effective_user_id (ex_button []) = 7"
    by (simp add: ex_defs)
  have present: "map_of (scheduled_messages ex_state) ''msg_5'' = Some ex_message"
    by (simp add: ex_state_def)
  have act: "active ex_message"
    by (simp add: ex_message_def)
  have u: "(ex_button [])\<lparr>callback_data := ''disable_'' @ ''msg_5''\<rparr> = ex_button ''disable_msg_5''"
    "(ex_button [])\<lparr>callback_data := ''enable_'' @ ''msg_5''\<rparr> = ex_button ''enable_msg_5''"
    by (simp_all add: ex_button_def)
  have d: "scheduled_messages ex_state = [(''msg_5'', ex_message)]"
    by (simp add: ex_state_def)
  from disable_then_enable_only_toggles_state [OF auth present] act auth present
  show ?thesis
    unfolding u by (simp add: d)
qed

subsection \<open>Deleting a channel\<close>

lemma list_ex_channel:
  "list_ex (\<lambda>(msg_id, msg). channel msg = c) d \<longleftrightarrow> (\<exists>(k, m) \<in> set d. channel m = c)"
  by (auto simp: list_ex_iff)

text \<open>
  Claim C6. \<^verbatim>\<open>/deletechannel\<close> for a registered channel, from the operator: when some
  scheduled message names the channel, the handler answers that the channel has scheduled
  messages and the state is otherwise exactly as before (channels, messages and files);
  when none does, the channel is deleted from \<^verbatim>\<open>channels\<close>, the other channels keep
  their order, the data is saved, and a following \<^verbatim>\<open>/listchannels\<close> does not show it.
\<close>

theorem delete_channel_guarded:
  assumes auth: "effective_user_id upd = your_user_id"
    and msg: "has_message upd"
    and args: "args \<noteq> []"
    and registered: "has_key (channels s) (lower (args ! 0))"
  shows "((\<exists>(k, m) \<in> set (scheduled_messages s). channel m = lower (args ! 0)) \<longrightarrow>
            delete_channel your_user_id upd args s =
              (None, s\<lparr>replies := replies s @ [ChannelHasMessages (lower (args ! 0))]\<rparr>)) \<and>
         (\<not> (\<exists>(k, m) \<in> set (scheduled_messages s). channel m = lower (args ! 0)) \<longrightarrow>
            delete_channel your_user_id upd args s =
              (None, (save_data (s\<lparr>channels := AList.delete (lower (args ! 0)) (channels s)\<rparr>))
                 \<lparr>replies := replies s @ [ChannelDeleted (lower (args ! 0))]\<rparr>) \<and>
            channels (snd (delete_channel your_user_id upd args s)) =
              AList.delete (lower (args ! 0)) (channels s) \<and>
            lower (args ! 0) \<notin> fst ` set (channels (snd (delete_channel your_user_id upd args s))) \<and>
            scheduled_messages (snd (delete_channel your_user_id upd args s)) = scheduled_messages s \<and>
            replies (snd (list_channels your_user_id upd (snd (delete_channel your_user_id upd args s)))) =
              replies s @ [ChannelDeleted (lower (args ! 0)),
                if AList.delete (lower (args ! 0)) (channels s) = [] then NoChannels
                else ChannelList (AList.delete (lower (args ! 0)) (channels s))])"
  using assms
  by (auto simp: delete_channel_def list_channels_def check_authorized_def reply_text_def Let_def
      list_ex_channel save_data_frame has_key_def keys_delete)

theorem delete_channel_guarded_witness:
  "effective_user_id ex_command = 7 \<and> has_message ex_command \<and> [''OPS''] \<noteq> [] \<and>
   has_key (channels ex_state) (lower ([''OPS''] ! 0)) \<and>
   (\<exists>(k, m) \<in> set (scheduled_messages ex_state). channel m = lower ([''OPS''] ! 0)) \<and>
   delete_channel 7 ex_command [''OPS''] ex_state =
     (None, ex_state\<lparr>replies := [ChannelHasMessages ''ops'']\<rparr>) \<and>
   \<not> (\<exists>(k, m) \<in> set (scheduled_messages (ex_state\<lparr>scheduled_messages := []\<rparr>)).
        channel m = lower ([''OPS''] ! 0)) \<and>
   channels (snd (delete_channel 7 ex_command [''OPS''] (ex_state\<lparr>scheduled_messages := []\<rparr>))) = []"
proof -
  have auth: "effective_user_id ex_command = 7" and msg: "has_message ex_command"
    by (simp_all add: ex_command_def)
  have args: "[''OPS''] \<noteq> []"
    by simp
  have low: "lower ([''OPS''] ! 0) = ''ops''"
    by (simp add: lower_def lower_char_def)
  have reg: "has_key (channels ex_state) (lower ([''OPS''] ! 0))"
    "has_key (channels (ex_state\<lparr>scheduled_messages := []\<rparr>)) (lower ([''OPS''] ! 0))"
    unfolding low by (simp_all add: ex_state_def has_key_def)
  have used: "\<exists>(k, m) \<in> set (scheduled_messages ex_state). channel m = lower ([''OPS''] ! 0)"
    unfolding low by (simp add: ex_state_def ex_message_def)
  have r: "replies ex_state = []" "channels ex_state = [(''ops'', ''-100555'')]"
    by (simp_all add: ex_state_def)
  from delete_channel_guarded [OF auth msg args reg(1)] used
  have one: "delete_channel 7 ex_command [''OPS''] ex_state =
     (None, ex_state\<lparr>replies := [ChannelHasMessages ''ops'']\<rparr>)"
    unfolding low by (simp add: r)
  from delete_channel_guarded [OF auth msg args reg(2)]
  have two: "channels (snd (delete_channel 7 ex_command [''OPS''] (ex_state\<lparr>scheduled_messages := []\<rparr>))) = []"
    unfolding low by (simp add: r save_data_frame)
  from auth msg reg used one two show ?thesis
    by simp
qed

subsection \<open>Saving and loading\<close>

lemma update_fresh: "k \<notin> fst ` set d \<Longrightarrow> AList.update k v d = d @ [(k, v)]"
  by (induction d) auto

lemma fold_update_distinct:
  "distinct (map fst d @ map fst ms) \<Longrightarrow>
   foldl (\<lambda>d (k, v). AList.update k (f k v) d) d ms = d @ map (\<lambda>(k, v). (k, f k v)) ms"
proof (induction ms arbitrary: d)
  case Nil
  then show ?case by simp
next
  case (Cons x ms)
  obtain k v where x: "x = (k, v)" by (cases x)
  from Cons.prems x have fresh: "k \<notin> fst ` set d"
    by auto
  from Cons.prems x have "distinct (map fst (d @ [(k, f k v)]) @ map fst ms)"
    by auto
  then have "foldl (\<lambda>d (k, v). AList.update k (f k v) d) (d @ [(k, f k v)]) ms =
      (d @ [(k, f k v)]) @ map (\<lambda>(k, v). (k, f k v)) ms"
    by (rule Cons.IH)
  with fresh x show ?case
    by (simp add: update_fresh)
qed

lemma json_object_distinct: "distinct (map fst ms) \<Longrightarrow> json_object ms = ms"
  using fold_update_distinct [of "[]" ms "\<lambda>k v. v"] by (simp add: json_object_def)

lemma to_saved_from_saved: "to_saved (from_saved k v) = v"
  by (simp add: to_saved_def from_saved_def)

lemma keys_saved: "map fst (map (\<lambda>(msg_id, msg_data). (msg_id, to_saved msg_data)) d) = map fst d"
  by (induction d) auto

lemma load_saved:
  assumes "distinct (map fst d)"
  shows "foldl (\<lambda>d (msg_id, msg_data). AList.update msg_id (from_saved msg_id msg_data) d) []
           (json_object (map (\<lambda>(msg_id, msg_data). (msg_id, to_saved msg_data)) d)) =
         map (\<lambda>(msg_id, msg_data). (msg_id, from_saved msg_id (to_saved msg_data))) d"
proof -
  let ?ms = "map (\<lambda>(msg_id, msg_data). (msg_id, to_saved msg_data)) d"
  from assms have dist: "distinct (map fst ?ms)"
    unfolding keys_saved .
  then have "json_object ?ms = ?ms"
    by (rule json_object_distinct)
  moreover from dist have "foldl (\<lambda>d (k, v). AList.update k (from_saved k v) d) [] ?ms =
      [] @ map (\<lambda>(k, v). (k, from_saved k v)) ?ms"
    by (intro fold_update_distinct) simp
  ultimately show ?thesis
    by (simp add: case_prod_unfold comp_def)
qed

text \<open>
  Claim C8. When the files can be written, \<^verbatim>\<open>save_data\<close> followed by the \<^verbatim>\<open>load_data\<close> of a
  fresh process gives back the same channels in the same order and the same scheduled
  messages in the same order, with the same ids, chats, texts, scheduled times, channel
  names and active flags. (Only the job handle, which is not saved, is gone.) The keys of
  a dictionary are distinct, which is what the two premises on the lists say.
\<close>

theorem save_then_load_roundtrip:
  assumes writable: "disk_writable s"
    and ck: "distinct (map fst (channels s))"
    and mk: "distinct (map fst (scheduled_messages s))"
  shows "channels (main (channels_file (save_data s)) (messages_file (save_data s)) w) = channels s \<and>
         scheduled_messages (main (channels_file (save_data s)) (messages_file (save_data s)) w) =
           map (\<lambda>(msg_id, msg_data). (msg_id, from_saved msg_id (to_saved msg_data)))
             (scheduled_messages s) \<and>
         map (\<lambda>(msg_id, msg_data). (msg_id, chat_id msg_data, msg_text msg_data,
                 scheduled_time msg_data, channel msg_data, active msg_data))
           (scheduled_messages (main (channels_file (save_data s)) (messages_file (save_data s)) w)) =
         map (\<lambda>(msg_id, msg_data). (msg_id, chat_id msg_data, msg_text msg_data,
                 scheduled_time msg_data, channel msg_data, active msg_data))
           (scheduled_messages s)"
proof -
  let ?s' = "main (channels_file (save_data s)) (messages_file (save_data s)) w"
  from writable have cf: "channels_file (save_data s) = Content (channels s)"
    and mf: "messages_file (save_data s) =
      Content (map (\<lambda>(msg_id, msg_data). (msg_id, to_saved msg_data)) (scheduled_messages s))"
    by (simp_all add: save_data_def)
  have c: "channels ?s' = channels s"
    by (simp add: main_def load_data_def load_channels_def load_messages_def initial_state_def
        cf mf json_object_distinct [OF ck] Let_def)
  have m: "scheduled_messages ?s' =
      map (\<lambda>(msg_id, msg_data). (msg_id, from_saved msg_id (to_saved msg_data)))
        (scheduled_messages s)"
    by (simp add: main_def load_data_def load_channels_def load_messages_def initial_state_def
        cf mf load_saved [OF mk] Let_def)
  have p: "map (\<lambda>(msg_id, msg_data). (msg_id, chat_id msg_data, msg_text msg_data,
                 scheduled_time msg_data, channel msg_data, active msg_data))
           (map (\<lambda>(msg_id, msg_data). (msg_id, from_saved msg_id (to_saved msg_data))) d) =
         map (\<lambda>(msg_id, msg_data). (msg_id, chat_id msg_data, msg_text msg_data,
                 scheduled_time msg_data, channel msg_data, active msg_data)) d" for d
    by (induction d) (auto simp: from_saved_def to_saved_def)
  from c m p show ?thesis
    by simp
qed

theorem save_then_load_roundtrip_witness:
  "disk_writable ex_state \<and>
   distinct (map fst (channels ex_state)) \<and>
   distinct (map fst (scheduled_messages ex_state)) \<and>
   channels (main (channels_file (save_data ex_state)) (messages_file (save_data ex_state)) True) =
     [(''ops'', ''-100555'')] \<and>
   scheduled_messages
       (main (channels_file (save_data ex_state)) (messages_file (save_data ex_state)) True) =
     [(''msg_5'', ex_message\<lparr>job := None\<rparr>)]"
proof -
  have w: "disk_writable ex_state"
    and ck: "distinct (map fst (channels ex_state))"
    and mk: "distinct (map fst (scheduled_messages ex_state))"
    by (simp_all add: ex_state_def)
  have v: "channels ex_state = [(''ops'', ''-100555'')]"
    "scheduled_messages ex_state = [(''msg_5'', ex_message)]"
    "from_saved ''msg_5'' (to_saved ex_message) = ex_message\<lparr>job := None\<rparr>"
    by (simp_all add: ex_state_def ex_message_def from_saved_def to_saved_def)
  from save_then_load_roundtrip [OF w ck mk, of True] w ck mk show ?thesis
    by (simp add: v)
qed

subsection \<open>Start of the process\<close>

lemma set_update_subset: "set (AList.update k v d) \<subseteq> insert (k, v) (set d)"
  by (induction d) auto

lemma fold_update_all:
  assumes "\<forall>(k, m) \<in> set d. P k m" and "\<And>k v. P k (f k v)"
  shows "\<forall>(k, m) \<in> set (foldl (\<lambda>d (k, v). AList.update k (f k v) d) d ms). P k m"
  using assms(1)
proof (induction ms arbitrary: d)
  case Nil
  then show ?case by simp
next
  case (Cons x ms)
  obtain k v where x: "x = (k, v)" by (cases x)
  have "\<forall>(k, m) \<in> set (AList.update k (f k v) d). P k m"
    using Cons.prems assms(2) set_update_subset [of k "f k v" d] by auto
  then show ?case
    using Cons.IH x by simp
qed

lemma main_frame:
  "job_queue (main cf mf w) = []" "sent (main cf mf w) = []" "replies (main cf mf w) = []"
  by (simp_all add: main_def load_data_def load_channels_def load_messages_def initial_state_def
      Let_def split: json_file.splits)

lemma main_messages:
  "scheduled_messages (main cf mf w) =
     (case mf of Content ms \<Rightarrow>
        foldl (\<lambda>d (msg_id, msg_data). AList.update msg_id (from_saved msg_id msg_data) d) []
          (json_object ms)
      | _ \<Rightarrow> [])"
  by (simp add: main_def load_data_def load_channels_def load_messages_def initial_state_def
      Let_def split: json_file.splits)

text \<open>
  What \<^verbatim>\<open>main\<close> leaves behind, for any content of the two files: an empty job queue,
  nothing sent, and the saved messages in \<^verbatim>\<open>scheduled_messages\<close>, each under its id and
  without a job.
\<close>

lemma restart_loads_without_arming:
  "job_queue (main cf mf w) = [] \<and>
   sent (main cf mf w) = [] \<and>
   (\<forall>(msg_id, msg_data) \<in> set (scheduled_messages (main cf mf w)).
      job msg_data = None \<and> message_id msg_data = msg_id) \<and>
   (distinct (map fst ms) \<longrightarrow>
      scheduled_messages (main cf (Content ms) w) =
        map (\<lambda>(msg_id, msg_data). (msg_id, from_saved msg_id msg_data)) ms)"
proof -
  have "\<forall>(k, m) \<in> set (foldl (\<lambda>d (k, v). AList.update k (from_saved k v) d) [] xs).
      job m = None \<and> message_id m = k" for xs
    by (rule fold_update_all) (simp_all add: from_saved_def)
  then have a: "\<forall>(msg_id, msg_data) \<in> set (scheduled_messages (main cf mf w)).
      job msg_data = None \<and> message_id msg_data = msg_id"
    by (cases mf) (simp_all add: main_messages)
  have b: "scheduled_messages (main cf (Content ms) w) =
        map (\<lambda>(msg_id, msg_data). (msg_id, from_saved msg_id msg_data)) ms"
    if d: "distinct (map fst ms)"
    using fold_update_distinct [of "[]" ms from_saved] d
    by (simp add: main_messages json_object_distinct)
  from a b show ?thesis
    by (simp add: main_frame)
qed

text \<open>
  Claim C1 asks that a restart arms a timer for every saved message and that a message
  whose scheduled time has passed is sent at once. \<^verbatim>\<open>schedule_message\<close> arms a job for
  every message it stores; \<^verbatim>\<open>load_data\<close> stores the saved messages without one, and
  \<^verbatim>\<open>main\<close> arms none. Here the files hold the channel \<open>ops\<close> and the active message
  \<open>msg_5\<close>, scheduled ten minutes after the start of the clock: after \<^verbatim>\<open>main\<close> the
  message is in \<^verbatim>\<open>scheduled_messages\<close> without a job, the job queue is empty and nothing
  was sent, while \<^verbatim>\<open>/listschedule\<close> at a clock reading of 1700000000 s shows the message
  as active and due in 0 minutes.
\<close>

theorem restart_does_not_fire_overdue:
  "scheduled_time ex_message < 1700000000000000 \<and>
   map_of (scheduled_messages (main (Content [(''ops'', ''-100555'')])
       (Content [(''msg_5'', to_saved ex_message)]) True)) ''msg_5'' =
     Some (ex_message\<lparr>job := None\<rparr>) \<and>
   job_queue (main (Content [(''ops'', ''-100555'')])
       (Content [(''msg_5'', to_saved ex_message)]) True) = [] \<and>
   sent (main (Content [(''ops'', ''-100555'')])
       (Content [(''msg_5'', to_saved ex_message)]) True) = [] \<and>
   map (\<lambda>e. (entry_id e, entry_active e, entry_minutes e))
     (listing 1700000000000000 (scheduled_messages (main (Content [(''ops'', ''-100555'')])
       (Content [(''msg_5'', to_saved ex_message)]) True))) = [(''msg_5'', True, 0)]"
  by (simp add: main_def load_data_def load_channels_def load_messages_def initial_state_def
      json_object_def from_saved_def to_saved_def ex_message_def listing_def
      minutes_remaining_def)

subsection \<open>Scheduling a message\<close>

lemma map_entry_update: "AList.map_entry k f (AList.update k v d) = AList.update k (f v) d"
  by (induction d) auto

lemma count_distinct: "distinct xs \<Longrightarrow> x \<in> set xs \<Longrightarrow> count_list xs x = 1"
  by (induction xs) auto

lemma count_key_update:
  "distinct (map fst d) \<Longrightarrow> count_list (map fst (AList.update k v d)) k = 1"
  by (rule count_distinct) (simp_all add: distinct_update dom_update)

lemma schedule_success:
  assumes "effective_user_id upd = your_user_id" "has_message upd" "3 \<le> length args"
    and "py_int (args ! 1) = Some delay"
    and "has_key (channels s) (lower (args ! 0))" "0 < delay"
    and "length (join_space (drop 2 args)) \<le> 4000"
    and "datetime_add now1 (timedelta_minutes delay) = Some due"
  shows "schedule_message your_user_id now1 now2 upd args s =
    (None, (save_data (s\<lparr>job_queue := job_queue s @
          [\<lparr>job_id = next_job_id s, job_when = delay * 60,
            job_data = ''msg_'' @ str_int (timestamp_int now2),
            job_name = ''msg_'' @ str_int (timestamp_int now2)\<rparr>],
        next_job_id := Suc (next_job_id s),
        scheduled_messages :=
        AList.update (''msg_'' @ str_int (timestamp_int now2))
          \<lparr>message_id = ''msg_'' @ str_int (timestamp_int now2),
           chat_id = effective_chat_id upd,
           msg_text = join_space (drop 2 args),
           scheduled_time = due,
           channel = lower (args ! 0),
           job = Some (next_job_id s),
           active = True\<rparr> (scheduled_messages s)\<rparr>))
      \<lparr>replies := replies s @ [Scheduled (join_space (drop 2 args)) (lower (args ! 0)) due
          (''msg_'' @ str_int (timestamp_int now2))]\<rparr>)"
  using assms
  by (simp add: schedule_message_def check_authorized_def reply_text_def Let_def run_once_def
      map_entry_update save_data_frame)

lemma schedule_rejects:
  assumes "effective_user_id upd = your_user_id" "has_message upd" "3 \<le> length args"
    and "py_int (args ! 1) = Some delay"
  shows "\<not> has_key (channels s) (lower (args ! 0)) \<Longrightarrow>
      schedule_message your_user_id now1 now2 upd args s =
        (None, s\<lparr>replies := replies s @ [ScheduleChannelNotFound (lower (args ! 0))]\<rparr>)"
    and "has_key (channels s) (lower (args ! 0)) \<Longrightarrow> delay \<le> 0 \<Longrightarrow>
      schedule_message your_user_id now1 now2 upd args s =
        (None, s\<lparr>replies := replies s @ [PositiveTimeRequired]\<rparr>)"
    and "has_key (channels s) (lower (args ! 0)) \<Longrightarrow> 0 < delay \<Longrightarrow>
      4000 < length (join_space (drop 2 args)) \<Longrightarrow>
      schedule_message your_user_id now1 now2 upd args s =
        (None, s\<lparr>replies := replies s @ [MessageTooLong]\<rparr>)"
    and "has_key (channels s) (lower (args ! 0)) \<Longrightarrow> 0 < delay \<Longrightarrow>
      length (join_space (drop 2 args)) \<le> 4000 \<Longrightarrow>
      datetime_add now1 (timedelta_minutes delay) = None \<Longrightarrow>
      schedule_message your_user_id now1 now2 upd args s = (Some OverflowError, s)"
  using assms
  by (simp_all add: schedule_message_def check_authorized_def reply_text_def Let_def)

lemmas eval_defs = lower_def lower_char_def py_int_def py_nat_def digit_val_def str_int_def
  str_nat.simps digit_char_def timestamp_int_def timedelta_minutes_def datetime_min_def
  datetime_max_def datetime_add_def has_key_def

text \<open>
  \<^verbatim>\<open>/schedule\<close> from the operator, with a channel name, an integer number of minutes and
  a text, case by case. When the channel is registered, the delay is positive, the text
  has at most 4000 characters and the clock reading plus the delay is still a
  \<^verbatim>\<open>datetime\<close>, the handler returns normally, the message is stored under its id with
  that scheduled time, active, with a job armed for it, and the listing shows the id
  exactly once. An unregistered channel, a delay that is not positive and a text that is
  too long are answered, in this order, and each leaves the state as it was but for the
  reply. A delay that leads beyond the last \<^verbatim>\<open>datetime\<close> leaves the handler with an
  \<^verbatim>\<open>OverflowError\<close>.
\<close>

lemma create_delivery:
  assumes auth: "effective_user_id upd = your_user_id"
    and msg: "has_message upd"
    and len: "3 \<le> length args"
    and int: "py_int (args ! 1) = Some delay"
    and keys: "distinct (map fst (scheduled_messages s))"
  shows "let r = schedule_message your_user_id now1 now2 upd args s;
             channel_name = lower (args ! 0);
             message_text = join_space (drop 2 args);
             msg_id = ''msg_'' @ str_int (timestamp_int now2);
             due = now1 + timedelta_minutes delay
         in (has_key (channels s) channel_name \<and> 0 < delay \<and> length message_text \<le> 4000 \<and>
               datetime_min \<le> due \<and> due \<le> datetime_max \<longrightarrow>
               fst r = None \<and>
               map_of (scheduled_messages (snd r)) msg_id =
                 Some \<lparr>message_id = msg_id, chat_id = effective_chat_id upd,
                       msg_text = message_text, scheduled_time = due,
                       channel = channel_name, job = Some (next_job_id s), active = True\<rparr> \<and>
               count_list (map entry_id (listing now (scheduled_messages (snd r)))) msg_id = 1 \<and>
               job_queue (snd r) = job_queue s @
                 [\<lparr>job_id = next_job_id s, job_when = delay * 60,
                   job_data = msg_id, job_name = msg_id\<rparr>] \<and>
               channels (snd r) = channels s) \<and>
            (\<not> has_key (channels s) channel_name \<longrightarrow>
               r = (None, s\<lparr>replies := replies s @ [ScheduleChannelNotFound channel_name]\<rparr>)) \<and>
            (has_key (channels s) channel_name \<and> delay \<le> 0 \<longrightarrow>
               r = (None, s\<lparr>replies := replies s @ [PositiveTimeRequired]\<rparr>)) \<and>
            (has_key (channels s) channel_name \<and> 0 < delay \<and> 4000 < length message_text \<longrightarrow>
               r = (None, s\<lparr>replies := replies s @ [MessageTooLong]\<rparr>)) \<and>
            (has_key (channels s) channel_name \<and> 0 < delay \<and> length message_text \<le> 4000 \<and>
               datetime_max < due \<longrightarrow>
               r = (Some OverflowError, s))"
proof -
  let ?r = "schedule_message your_user_id now1 now2 upd args s"
  let ?cn = "lower (args ! 0)"
  let ?txt = "join_space (drop 2 args)"
  let ?id = "''msg_'' @ str_int (timestamp_int now2)"
  let ?due = "now1 + timedelta_minutes delay"
  note rej = schedule_rejects [OF auth msg len int, of s now1 now2]
  have ok: "fst ?r = None \<and>
      map_of (scheduled_messages (snd ?r)) ?id =
        Some \<lparr>message_id = ?id, chat_id = effective_chat_id upd,
              msg_text = ?txt, scheduled_time = ?due,
              channel = ?cn, job = Some (next_job_id s), active = True\<rparr> \<and>
      count_list (map entry_id (listing now (scheduled_messages (snd ?r)))) ?id = 1 \<and>
      job_queue (snd ?r) = job_queue s @
        [\<lparr>job_id = next_job_id s, job_when = delay * 60, job_data = ?id, job_name = ?id\<rparr>] \<and>
      channels (snd ?r) = channels s"
    if h: "has_key (channels s) ?cn" "0 < delay" "length ?txt \<le> 4000"
      "datetime_min \<le> ?due" "?due \<le> datetime_max"
  proof -
    from h have "datetime_add now1 (timedelta_minutes delay) = Some ?due"
      by (simp add: datetime_add_def)
    from schedule_success [OF auth msg len int h(1) h(2) h(3) this, of now2]
    show ?thesis
      using keys
      by (simp add: save_data_frame update_conv listing_ids count_key_update
          del: append.simps)
  qed
  have over: "?r = (Some OverflowError, s)"
    if h: "has_key (channels s) ?cn" "0 < delay" "length ?txt \<le> 4000" "datetime_max < ?due"
  proof -
    from h have "datetime_add now1 (timedelta_minutes delay) = None"
      by (simp add: datetime_add_def)
    with h rej(4) show ?thesis by simp
  qed
  from ok over rej(1) rej(2) rej(3) show ?thesis
    unfolding Let_def by blast
qed

lemma create_delivery_examples:
  "effective_user_id ex_command = 7 \<and> has_message ex_command \<and>
   distinct (map fst (scheduled_messages ex_state)) \<and>
   py_int ([''OPS'', ''10'', ''good'', ''day''] ! 1) = Some 10 \<and>
   has_key (channels ex_state) (lower ([''OPS'', ''10'', ''good'', ''day''] ! 0)) \<and>
   map_of (scheduled_messages
       (snd (schedule_message 7 0 9000000 ex_command [''OPS'', ''10'', ''good'', ''day''] ex_state)))
       ''msg_9'' =
     Some \<lparr>message_id = ''msg_9'', chat_id = 7, msg_text = ''good day'',
           scheduled_time = 600000000, channel = ''ops'', job = Some 1, active = True\<rparr> \<and>
   count_list (map entry_id (listing 0 (scheduled_messages
       (snd (schedule_message 7 0 9000000 ex_command [''OPS'', ''10'', ''good'', ''day''] ex_state)))))
       ''msg_9'' = 1 \<and>
   schedule_message 7 0 9000000 ex_command [''nowhere'', ''10'', ''x''] ex_state =
     (None, ex_state\<lparr>replies := [ScheduleChannelNotFound ''nowhere'']\<rparr>) \<and>
   schedule_message 7 0 9000000 ex_command [''ops'', ''0'', ''x''] ex_state =
     (None, ex_state\<lparr>replies := [PositiveTimeRequired]\<rparr>) \<and>
   schedule_message 7 0 9000000 ex_command [''ops'', ''10'', replicate 4001 (CHR ''a'')] ex_state =
     (None, ex_state\<lparr>replies := [MessageTooLong]\<rparr>) \<and>
   schedule_message 7 0 9000000 ex_command [''ops'', ''9999999999999'', ''x''] ex_state =
     (Some OverflowError, ex_state)"
proof -
  have auth: "effective_user_id ex_command = 7" and msg: "has_message ex_command"
    by (simp_all add: ex_command_def)
  have keys: "distinct (map fst (scheduled_messages ex_state))"
    by (simp add: ex_state_def)
  have st: "channels ex_state = [(''ops'', ''-100555'')]" "replies ex_state = []"
    "next_job_id ex_state = 1" "effective_chat_id ex_command = 7"
    by (simp_all add: ex_state_def ex_command_def)
  have i1: "py_int ([''OPS'', ''10'', ''good'', ''day''] ! 1) = Some 10"
    and i2: "py_int ([''nowhere'', ''10'', ''x''] ! 1) = Some 10"
    and i3: "py_int ([''ops'', ''0'', ''x''] ! 1) = Some 0"
    and i4: "py_int ([''ops'', ''10'', replicate 4001 (CHR ''a'')] ! 1) = Some 10"
    and i5: "py_int ([''ops'', ''9999999999999'', ''x''] ! 1) = Some 9999999999999"
    by (simp_all add: eval_defs)
  have reg: "has_key (channels ex_state) (lower ([''OPS'', ''10'', ''good'', ''day''] ! 0))"
    by (simp add: st eval_defs)
  from create_delivery [OF auth msg _ i1 keys, of 0 9000000 0]
  have one: "map_of (scheduled_messages
       (snd (schedule_message 7 0 9000000 ex_command [''OPS'', ''10'', ''good'', ''day''] ex_state)))
       ''msg_9'' =
     Some \<lparr>message_id = ''msg_9'', chat_id = 7, msg_text = ''good day'',
           scheduled_time = 600000000, channel = ''ops'', job = Some 1, active = True\<rparr> \<and>
     count_list (map entry_id (listing 0 (scheduled_messages
       (snd (schedule_message 7 0 9000000 ex_command [''OPS'', ''10'', ''good'', ''day''] ex_state)))))
       ''msg_9'' = 1"
    unfolding Let_def by (simp add: st eval_defs)
  from create_delivery [OF auth msg _ i2 keys, of 0 9000000 0]
  have two: "schedule_message 7 0 9000000 ex_command [''nowhere'', ''10'', ''x''] ex_state =
     (None, ex_state\<lparr>replies := [ScheduleChannelNotFound ''nowhere'']\<rparr>)"
    unfolding Let_def by (simp add: st eval_defs)
  from create_delivery [OF auth msg _ i3 keys, of 0 9000000 0]
  have three: "schedule_message 7 0 9000000 ex_command [''ops'', ''0'', ''x''] ex_state =
     (None, ex_state\<lparr>replies := [PositiveTimeRequired]\<rparr>)"
    unfolding Let_def by (simp add: st eval_defs)
  from create_delivery [OF auth msg _ i4 keys, of 0 9000000 0]
  have four: "schedule_message 7 0 9000000 ex_command [''ops'', ''10'', replicate 4001 (CHR ''a'')]
       ex_state = (None, ex_state\<lparr>replies := [MessageTooLong]\<rparr>)"
    unfolding Let_def by (simp add: st eval_defs)
  from create_delivery [OF auth msg _ i5 keys, of 0 9000000 0]
  have five: "schedule_message 7 0 9000000 ex_command [''ops'', ''9999999999999'', ''x''] ex_state =
     (Some OverflowError, ex_state)"
    unfolding Let_def by (simp add: st eval_defs)
  from auth msg keys i1 reg one two three four five show ?thesis
    by blast
qed

text \<open>
  Claim C5 asks that \<^verbatim>\<open>/schedule\<close> succeeds for every registered channel, every positive
  delay and every text of at most 4000 characters. The handler catches the
  \<^verbatim>\<open>ValueError\<close> of a delay that is no number and answers it, but not the
  \<^verbatim>\<open>OverflowError\<close> of the date arithmetic in the same \<^verbatim>\<open>try\<close> block. Here the operator
  sends \<^verbatim>\<open>/schedule ops 9999999999999 hi\<close> at a clock reading of 1700000000 s, with
  \<open>ops\<close> registered: the exception leaves the handler, no reply is given, and no message
  and no job is created. The delay \<open>soon\<close> in its place is answered.
\<close>

theorem create_far_future_raises:
  "has_key (channels ex_state) (lower ''ops'') \<and>
   py_int ''9999999999999'' = Some 9999999999999 \<and>
   0 < (9999999999999 :: int) \<and>
   length (join_space [''hi'']) \<le> 4000 \<and>
   schedule_message 7 1700000000000000 1700000000000000 ex_command
       [''ops'', ''9999999999999'', ''hi''] ex_state =
     (Some OverflowError, ex_state) \<and>
   schedule_message 7 1700000000000000 1700000000000000 ex_command
       [''ops'', ''soon'', ''hi''] ex_state =
     (None, ex_state\<lparr>replies := [ValidNumberRequired]\<rparr>)"
  by (simp add: schedule_message_def check_authorized_def reply_text_def Let_def eval_defs
      ex_state_def ex_command_def)

text \<open>
  Claim C2 asks that two messages never get the same id. The id is \<^verbatim>\<open>msg_\<close> followed by
  the clock reading in whole seconds, so two \<^verbatim>\<open>/schedule\<close> commands within one second get
  the same id. Here the clock reads 1700000000.1 s and 1700000000.9 s: both messages get
  the id \<^verbatim>\<open>msg_1700000000\<close>, the second assignment to \<^verbatim>\<open>scheduled_messages\<close> replaces the
  first message, and two jobs are left for the one id.
\<close>

theorem same_second_ids_collide:
  "timestamp_int 1700000000100000 = timestamp_int 1700000000900000 \<and>
   map fst (scheduled_messages
     (snd (schedule_message 7 1700000000100000 1700000000100000 ex_command
        [''ops'', ''10'', ''first''] ex_state))) = [''msg_5'', ''msg_1700000000''] \<and>
   map (\<lambda>(msg_id, msg_data). (msg_id, msg_text msg_data)) (scheduled_messages
     (snd (schedule_message 7 1700000000900000 1700000000900000 ex_command
        [''ops'', ''20'', ''second'']
        (snd (schedule_message 7 1700000000100000 1700000000100000 ex_command
           [''ops'', ''10'', ''first''] ex_state))))) =
     [(''msg_5'', ''hello''), (''msg_1700000000'', ''second'')] \<and>
   map job_data (job_queue
     (snd (schedule_message 7 1700000000900000 1700000000900000 ex_command
        [''ops'', ''20'', ''second'']
        (snd (schedule_message 7 1700000000100000 1700000000100000 ex_command
           [''ops'', ''10'', ''first''] ex_state))))) =
     [''msg_5'', ''msg_1700000000'', ''msg_1700000000'']"
  by (simp add: schedule_message_def check_authorized_def reply_text_def run_once_def save_data_def
      Let_def eval_defs ex_state_def ex_command_def ex_message_def)

subsection \<open>Dictionary keys stay distinct\<close>

text \<open>
  The premises of distinct keys in the claims above hold in every state the bot reaches:
  they hold after \<^verbatim>\<open>main\<close>, and every handler and the job callback keep them.
\<close>

lemma reply_text_frame:
  "channels (snd (reply_text upd r s)) = channels s"
  "scheduled_messages (snd (reply_text upd r s)) = scheduled_messages s"
  by (simp_all add: reply_text_def)

lemma handlers_keep_keys_distinct:
  assumes "distinct (map fst (channels s))" and "distinct (map fst (scheduled_messages s))"
  shows "distinct (map fst (channels (snd (handle_update uid now1 now2 upd ev s)))) \<and>
         distinct (map fst (scheduled_messages (snd (handle_update uid now1 now2 upd ev s))))"
proof (cases "effective_user_id upd = uid")
  case False
  from unauthorized_handler [OF this, of now1 now2 ev s]
  have "stores (snd (handle_update uid now1 now2 upd ev s)) = stores s"
    by simp
  then have "channels (stores (snd (handle_update uid now1 now2 upd ev s))) = channels (stores s)"
    "scheduled_messages (stores (snd (handle_update uid now1 now2 upd ev s))) =
       scheduled_messages (stores s)"
    by simp_all
  with assms show ?thesis by simp
next
  case True
  show ?thesis
  proof (cases ev)
    case (Command name args)
    with True assms show ?thesis
      by (simp add: handle_update_def handler_defs check_authorized_operator reply_text_frame
          save_data_frame run_once_def Let_def distinct_update distinct_delete distinct_map_entry
          split: option.splits)
  next
    case CallbackQuery
    with True assms show ?thesis
      by (simp add: handle_update_def button_handler_def check_authorized_operator
          save_data_frame schedule_removal_def Let_def distinct_delete distinct_map_entry
          split: option.splits)
  qed
qed

lemma fold_update_keys_distinct:
  "distinct (map fst d) \<Longrightarrow>
   distinct (map fst (foldl (\<lambda>d (k, v). AList.update k (f k v) d) d ms))"
proof (induction ms arbitrary: d)
  case Nil
  then show ?case by simp
next
  case (Cons x ms)
  obtain k v where x: "x = (k, v)" by (cases x)
  from Cons.prems have "distinct (map fst (AList.update k (f k v) d))"
    by (rule distinct_update)
  then show ?case
    using Cons.IH x by simp
qed

lemma main_keeps_keys_distinct:
  "distinct (map fst (channels (main cf mf w))) \<and>
   distinct (map fst (scheduled_messages (main cf mf w)))"
proof -
  have j: "distinct (map fst (json_object ms))" for ms :: "(string \<times> 'a) list"
    using fold_update_keys_distinct [of "[]" "\<lambda>k v. v" ms] by (simp add: json_object_def)
  have c: "distinct (map fst (channels (main cf mf w)))"
    by (cases cf; cases mf)
      (simp_all add: main_def load_data_def load_channels_def load_messages_def
        initial_state_def j)
  have m: "distinct (map fst (scheduled_messages (main cf mf w)))"
    by (cases mf) (simp_all add: main_messages fold_update_keys_distinct)
  from c m show ?thesis ..
qed

lemma callback_keeps_keys_distinct:
  assumes "distinct (map fst (channels s))" and "distinct (map fst (scheduled_messages s))"
  shows "distinct (map fst (channels (snd (send_scheduled_message tr msg_id s)))) \<and>
         distinct (map fst (scheduled_messages (snd (send_scheduled_message tr msg_id s))))"
  using assms
  by (auto simp: fire_defs distinct_delete split: option.splits prod.splits)

subsection \<open>A queued job finds its channel\<close>

text \<open>
  \<^verbatim>\<open>schedule_message\<close> stores a message only under a registered channel, \<^verbatim>\<open>delete_channel\<close>
  refuses a channel that a message names, and the messages that \<^verbatim>\<open>load_data\<close> restores
  have no job. So \<open>queue_ok\<close> holds after \<^verbatim>\<open>main\<close> and is kept by every handler and by
  the job callback: when the callback of a queued job finds its message, the channel of
  the message is registered, and the guard of the callback fails only for a message that
  is not active.
\<close>

lemma queue_ok_iff:
  "queue_ok s \<longleftrightarrow>
     (\<forall>j \<in> set (job_queue s). \<forall>m. map_of (scheduled_messages s) (job_data j) = Some m \<longrightarrow>
        has_key (channels s) (channel m))"
  by (auto simp: queue_ok_def list_all_iff split: option.splits)

lemma queue_ok_frame:
  assumes "queue_ok s" and "channels t = channels s"
    and "scheduled_messages t = scheduled_messages s" and "job_queue t = job_queue s"
  shows "queue_ok t"
  using assms by (simp add: queue_ok_iff)

lemma queue_ok_main: "queue_ok (main cf mf w)"
  by (simp add: queue_ok_iff main_frame)

lemma has_key_update: "has_key d k \<Longrightarrow> has_key (AList.update k' v d) k"
  by (simp add: has_key_def dom_update)

lemma has_key_delete: "has_key d k \<Longrightarrow> k \<noteq> k' \<Longrightarrow> has_key (AList.delete k' d) k"
  by (auto simp: has_key_def AList.delete_eq)

lemma queue_ok_simps [simp]:
  "queue_ok (s\<lparr>replies := r\<rparr>) = queue_ok s"
  "queue_ok (s\<lparr>sent := x\<rparr>) = queue_ok s"
  "queue_ok (s\<lparr>logged := l\<rparr>) = queue_ok s"
  "queue_ok (s\<lparr>next_job_id := n\<rparr>) = queue_ok s"
  "queue_ok (save_data s) = queue_ok s"
  by (simp_all add: queue_ok_iff save_data_frame)

lemma queue_ok_reply_text [simp]: "queue_ok (snd (reply_text upd r s)) = queue_ok s"
  by (simp add: reply_text_def)

lemma queue_ok_add:
  "queue_ok s \<Longrightarrow> queue_ok (s\<lparr>channels := AList.update k v (channels s)\<rparr>)"
  by (simp add: queue_ok_iff has_key_update)

lemma queue_ok_remove:
  assumes "queue_ok s" and "\<not> list_ex (\<lambda>(msg_id, msg). channel msg = k) (scheduled_messages s)"
  shows "queue_ok (s\<lparr>channels := AList.delete k (channels s)\<rparr>)"
proof -
  have "channel m \<noteq> k" if "map_of (scheduled_messages s) i = Some m" for i m
    using assms(2) map_of_SomeD [OF that] by (auto simp: list_ex_iff)
  with assms(1) show ?thesis
    by (auto simp: queue_ok_iff intro: has_key_delete)
qed

lemma queue_ok_create:
  assumes "queue_ok s" and "has_key (channels s) (channel m)" and "job_data j = k"
  shows "queue_ok (s\<lparr>job_queue := job_queue s @ [j],
                     scheduled_messages := AList.update k m (scheduled_messages s)\<rparr>)"
  using assms by (auto simp: queue_ok_iff update_conv)

lemma queue_ok_map_entry:
  assumes "queue_ok s" and "\<And>m. channel (f m) = channel m"
  shows "queue_ok (s\<lparr>scheduled_messages := AList.map_entry k f (scheduled_messages s)\<rparr>)"
  using assms by (auto simp: queue_ok_iff map_of_map_entry split: option.splits if_splits)

lemma queue_ok_retire:
  "queue_ok s \<Longrightarrow> queue_ok (s\<lparr>scheduled_messages := AList.delete k (scheduled_messages s)\<rparr>)"
  by (auto simp: queue_ok_iff delete_conv split: if_splits)

lemma queue_ok_removal: "queue_ok s \<Longrightarrow> queue_ok (schedule_removal j s)"
  by (auto simp: queue_ok_iff schedule_removal_def)

lemma reply_text_job_queue: "job_queue (snd (reply_text upd r s)) = job_queue s"
  by (simp add: reply_text_def)

lemma queue_ok_start: "queue_ok s \<Longrightarrow> queue_ok (snd (start uid upd s))"
  by (simp add: start_def check_authorized_def)

lemma queue_ok_help: "queue_ok s \<Longrightarrow> queue_ok (snd (help_command uid upd s))"
  by (simp add: help_command_def check_authorized_def)

lemma queue_ok_list_channels: "queue_ok s \<Longrightarrow> queue_ok (snd (list_channels uid upd s))"
  by (simp add: list_channels_def check_authorized_def)

lemma queue_ok_list_scheduled:
  "queue_ok s \<Longrightarrow> queue_ok (snd (list_scheduled_messages uid now upd s))"
  by (simp add: list_scheduled_messages_def check_authorized_def)

lemma queue_ok_add_channel: "queue_ok s \<Longrightarrow> queue_ok (snd (add_channel uid upd args s))"
  by (simp add: add_channel_def check_authorized_def Let_def queue_ok_add)

lemma queue_ok_delete_channel:
  "queue_ok s \<Longrightarrow> queue_ok (snd (delete_channel uid upd args s))"
  by (simp add: delete_channel_def check_authorized_def Let_def queue_ok_remove)

lemma queue_ok_schedule_message:
  "queue_ok s \<Longrightarrow> queue_ok (snd (schedule_message uid now1 now2 upd args s))"
  by (auto simp: schedule_message_def check_authorized_def Let_def run_once_def
      map_entry_update queue_ok_iff save_data_frame reply_text_frame reply_text_job_queue
      update_conv split: option.splits if_splits)

lemma queue_ok_button_handler:
  "queue_ok s \<Longrightarrow> queue_ok (snd (button_handler uid upd s))"
  by (auto simp: button_handler_def check_authorized_def Let_def schedule_removal_def
      queue_ok_iff save_data_frame map_of_map_entry delete_conv
      split: option.splits if_splits)

lemma queue_ok_handle_update:
  "queue_ok s \<Longrightarrow> queue_ok (snd (handle_update uid now1 now2 upd ev s))"
  by (cases ev)
    (simp_all add: handle_update_def queue_ok_start queue_ok_help queue_ok_add_channel
      queue_ok_list_channels queue_ok_delete_channel queue_ok_schedule_message
      queue_ok_list_scheduled queue_ok_button_handler)

lemma queue_ok_callback:
  "queue_ok s \<Longrightarrow> queue_ok (snd (send_scheduled_message tr msg_id s))"
  by (auto simp: send_scheduled_message_def try_send_def send_failed_def send_message_def
      Let_def queue_ok_iff save_data_frame delete_conv
      split: option.splits if_splits prod.splits)

lemma queued_job_finds_channel:
  assumes "queue_ok s" and "j \<in> set (job_queue s)"
    and "map_of (scheduled_messages s) (job_data j) = Some m"
  shows "has_key (channels s) (channel m)"
  using assms by (auto simp: queue_ok_iff)

end
